theory Spec2Isabelle
  imports Complex_Main
begin

section \<open>Print jobs: data model\<close>

text \<open>
  The development embeds \<^verbatim>\<open>spoolman/database/print_job.py\<close> and the update endpoint of
  \<^verbatim>\<open>spoolman/api/v1/print_job.py\<close>.

  Conventions.
  \<^item> A Python \<^verbatim>\<open>float\<close> is an IEEE 754 binary64 value (the type \<open>float\<close> below): a
    finite value with its sign, an infinity or NaN. \<^verbatim>\<open>*\<close> and \<^verbatim>\<open>/\<close> round to the nearest
    value, ties to even.
  \<^item> A Python \<^verbatim>\<open>datetime\<close> is its wall-clock reading \<open>wall\<close>, counted in microseconds
    since \<^verbatim>\<open>datetime.min\<close> (0001-01-01T00:00:00), and its \<open>tzinfo\<close>: \<open>None\<close> for a naive
    value, \<open>Some k\<close> for an aware one whose UTC offset is \<open>k\<close> microseconds.
  \<^item> An exception is a value of type \<open>error\<close>; every operation returns its outcome
    together with the world it leaves behind, so that what a failed call has changed
    can be stated.
\<close>

datatype error =
    ItemNotFoundError string
  | IntegrityError
  | OverflowError
  | ValueError
  | ZeroDivisionError
  | Exception string

record datetime =
  wall :: int
  tzinfo :: "int option"

subsection \<open>\<^verbatim>\<open>float\<close>\<close>

text \<open>
  \<open>Finite s a\<close> is the finite value of magnitude \<open>a\<close>, a rational that binary64
  represents, with the sign bit \<open>s\<close> (\<open>True\<close> for a negative value, so that
  \<open>Finite True 0\<close> is \<^verbatim>\<open>-0.0\<close>); \<open>Infinity s\<close> is an infinity with its sign; \<open>NaN\<close> is
  not a number.
\<close>

datatype float = Finite bool rat | Infinity bool | NaN

definition pow2 :: "int \<Rightarrow> rat" where
  "pow2 k = (if 0 \<le> k then 2 ^ nat k else 1 / 2 ^ nat (- k))"

text \<open>\<^verbatim>\<open>int.bit_length\<close>: the number of binary digits of \<open>\<bar>n\<bar>\<close>.\<close>

function bit_length :: "int \<Rightarrow> int" where
  "bit_length n = (if n = 0 then 0 else 1 + bit_length (\<bar>n\<bar> div 2))"
  by pat_completeness auto
termination
  by (relation "measure (\<lambda>n. nat \<bar>n\<bar>)") auto

declare bit_length.simps [simp del]

text \<open>
  For \<open>0 < a\<close>, \<open>floor_log2 a\<close> is the exponent \<open>k\<close> with \<open>2 ^ k \<le> a < 2 ^ (k + 1)\<close>:
  for \<open>a = p / q\<close> in lowest terms it is the difference of the bit lengths of \<open>p\<close> and
  \<open>q\<close> or one less.
\<close>

definition floor_log2 :: "rat \<Rightarrow> int" where
  "floor_log2 a =
     (let k = bit_length (fst (quotient_of a)) - bit_length (snd (quotient_of a))
      in if pow2 k \<le> a then k else k - 1)"

definition round_half_even :: "rat \<Rightarrow> int" where
  "round_half_even x =
     (let n = \<lfloor>x\<rfloor>; r = x - of_int n
      in if r < 1 / 2 then n else if 1 / 2 < r then n + 1 else if even n then n else n + 1)"

text \<open>
  Rounding to binary64, to nearest with ties to even: \<open>round64 s a\<close> is the value
  with the sign bit \<open>s\<close> that the exact magnitude \<open>a \<ge> 0\<close> rounds to. The significand
  has 53 bits; \<open>e\<close> is the exponent of its last bit, which is at least \<open>-1074\<close> (below
  \<open>2 ^ -1022\<close> the values are subnormal and a magnitude may round to zero); the
  largest finite magnitude is \<open>(2 ^ 53 - 1) * 2 ^ 971\<close>, and what rounds beyond it is
  an infinity.
\<close>

definition round64 :: "bool \<Rightarrow> rat \<Rightarrow> float" where
  "round64 s a =
     (if a = 0 then Finite s 0
      else let e = max (floor_log2 a) (- 1022) - 52;
               n = round_half_even (a / pow2 e)
           in if 971 < e \<or> (e = 971 \<and> 2 ^ 53 \<le> n) then Infinity s
              else Finite s (of_int n * pow2 e))"

text \<open>The value of a decimal literal such as \<^verbatim>\<open>15.5\<close> or \<^verbatim>\<open>3.1\<close>: the nearest binary64 value.\<close>

definition float_literal :: "rat \<Rightarrow> float" where
  "float_literal q = (if q < 0 then round64 True (- q) else round64 False q)"

text \<open>\<^verbatim>\<open>x * y\<close> on floats. It never raises: a product out of range is an infinity.\<close>

fun fmul :: "float \<Rightarrow> float \<Rightarrow> float" where
  "fmul NaN y = NaN"
| "fmul x NaN = NaN"
| "fmul (Infinity s) (Infinity t) = Infinity (s \<noteq> t)"
| "fmul (Infinity s) (Finite t b) = (if b = 0 then NaN else Infinity (s \<noteq> t))"
| "fmul (Finite s a) (Infinity t) = (if a = 0 then NaN else Infinity (s \<noteq> t))"
| "fmul (Finite s a) (Finite t b) = round64 (s \<noteq> t) (a * b)"

text \<open>The quotient of IEEE 754.\<close>

fun fdiv :: "float \<Rightarrow> float \<Rightarrow> float" where
  "fdiv NaN y = NaN"
| "fdiv x NaN = NaN"
| "fdiv (Infinity s) (Infinity t) = NaN"
| "fdiv (Infinity s) (Finite t b) = Infinity (s \<noteq> t)"
| "fdiv (Finite s a) (Infinity t) = Finite (s \<noteq> t) 0"
| "fdiv (Finite s a) (Finite t b) =
     (if b = 0 then (if a = 0 then NaN else Infinity (s \<noteq> t))
      else round64 (s \<noteq> t) (a / b))"

fun is_zero :: "float \<Rightarrow> bool" where
  "is_zero (Finite s a) = (a = 0)"
| "is_zero x = False"

text \<open>
  \<^verbatim>\<open>x / y\<close> on floats: \<^verbatim>\<open>ZeroDivisionError\<close> when the divisor is \<^verbatim>\<open>0.0\<close> or \<^verbatim>\<open>-0.0\<close>,
  whatever the dividend; the quotient of IEEE 754 otherwise.
\<close>

definition truediv :: "float \<Rightarrow> float \<Rightarrow> error + float" where
  "truediv x y = (if is_zero y then Inl ZeroDivisionError else Inr (fdiv x y))"

text \<open>\<^verbatim>\<open>x > 0\<close> on a float: false for NaN and for both zeros.\<close>

fun is_positive :: "float \<Rightarrow> bool" where
  "is_positive (Finite s a) = (\<not> s \<and> 0 < a)"
| "is_positive (Infinity s) = (\<not> s)"
| "is_positive NaN = False"

subsection \<open>The tables\<close>

text \<open>
  The ORM classes of \<^verbatim>\<open>spoolman.database.models\<close> are not part of the sources; the
  records hold the attributes that the code reads and the columns that the migration
  \<^verbatim>\<open>add_print_job_table\<close> declares. An attribute of a Python object can hold
  \<^verbatim>\<open>None\<close> whatever its column says, so the columns declared \<^verbatim>\<open>nullable=False\<close> are
  options as well; the constraint is checked when the row is written
  (\<open>constraints_ok\<close> below).
\<close>

record filament =
  filament_price :: "float option"
  filament_weight :: "float option"

record spool =
  price :: "float option"
  initial_weight :: "float option"
  filament :: filament

record print_job =
  id' :: int
  registered :: datetime
  spool_id :: "int option"
  name :: "string option"
  weight_used :: "float option"
  started_at :: "datetime option"
  completed_at :: "datetime option"
  cost :: "float option"
  revenue :: "float option"
  notes' :: "string option"
  external_reference :: "string option"

record database =
  spools :: "int \<Rightarrow> spool option"
  print_jobs :: "print_job list"

datatype event_type = ADDED | UPDATED | DELETED

text \<open>
  Modelled from the spec: \<^verbatim>\<open>PrintJobEvent\<close> and \<^verbatim>\<open>PrintJob.from_db\<close> live in
  \<^verbatim>\<open>spoolman.api.v1.models\<close>, which is not part of the sources. The spec describes a
  change event as \<^emph>\<open>a tagged record {kind: added|updated|deleted, resource name,
  timestamp, payload snapshot of the entity at time of change}\<close>; the payload is the
  record of the job as it is when the event is built.
\<close>

record print_job_event =
  type' :: event_type
  resource :: string
  date :: datetime
  payload :: print_job

type_synonym topic = "string list"

text \<open>
  The effects that leave the process, in the order in which they happen: a committed
  transaction (with the table contents it leaves) and a call of
  \<^verbatim>\<open>websocket_manager.send\<close>.
\<close>

datatype effect =
    Committed database
  | Sent topic print_job_event

record 'w world =
  db :: database
  ws :: 'w
  logged :: "string list"
  effects :: "effect list"

text \<open>
  What the code takes from its surroundings:
  \<^item> \<open>send\<close>: \<^verbatim>\<open>websocket_manager.send\<close> (module \<^verbatim>\<open>spoolman.ws\<close>, not part of the sources).
    It maps the manager's state to a new state and may raise any \<^verbatim>\<open>Exception\<close>.
  \<^item> \<open>local_utcoffset\<close>: the system's local time zone, as \<^verbatim>\<open>datetime.astimezone\<close>
    reads it for a naive value: \<open>local_utcoffset t\<close> is \<^verbatim>\<open>time.localtime(t).tm_gmtoff\<close>,
    the UTC offset in seconds of local time at the POSIX timestamp \<open>t\<close>. The C
    library answers for every timestamp that the conversion asks about (as it does
    where \<^verbatim>\<open>time_t\<close> has 64 bits).
  \<^item> \<open>ilike\<close>: the storage engine's case-insensitive \<^verbatim>\<open>LIKE\<close> (column value, pattern).
  \<^item> \<open>foreign_keys\<close>: whether the storage engine enforces the foreign key of the
    migration when a row is written.
\<close>

record 'w env =
  send :: "topic \<Rightarrow> print_job_event \<Rightarrow> 'w \<Rightarrow> error option \<times> 'w"
  local_utcoffset :: "int \<Rightarrow> int"
  ilike :: "string \<Rightarrow> string \<Rightarrow> bool"
  foreign_keys :: bool

section \<open>Python built-ins\<close>

subsection \<open>\<^verbatim>\<open>str\<close> of an integer\<close>

definition digit_char :: "nat \<Rightarrow> char" where
  "digit_char d = ''0123456789'' ! d"

function str_nat :: "nat \<Rightarrow> string" where
  "str_nat n = (if n < 10 then [digit_char n] else str_nat (n div 10) @ [digit_char (n mod 10)])"
  by pat_completeness auto
termination
  by (relation "measure (\<lambda>n. n)") auto

declare str_nat.simps [simp del]

definition str :: "int \<Rightarrow> string" where
  "str i = (if i < 0 then CHR ''-'' # str_nat (nat (- i)) else str_nat (nat i))"

subsection \<open>\<^verbatim>\<open>datetime\<close>\<close>

definition datetime_min :: int where
  "datetime_min = 0"

definition datetime_max :: int where
  "datetime_max = 315537897599999999"

text \<open>
  How CPython 3.11 (\<^verbatim>\<open>_datetimemodule.c\<close>) finds the UTC offset of a naive value, which
  it takes for local time. Times are counted in seconds as \<^verbatim>\<open>utc_to_seconds\<close> counts
  them (day 1 is 0001-01-01, so that a wall-clock reading of \<open>w\<close> microseconds is
  second \<open>86400 + w div 1000000\<close>), and \<open>epoch\<close> is 1970-01-01 on that scale.
  \<^verbatim>\<open>utc_to_seconds\<close> raises \<^verbatim>\<open>ValueError\<close> for a year outside 1 .. 9999.
\<close>

definition epoch :: int where
  "epoch = 719163 * 24 * 60 * 60"

definition max_fold_seconds :: int where
  "max_fold_seconds = 24 * 3600"

definition utc_to_seconds :: "int \<Rightarrow> error + int" where
  "utc_to_seconds s = (if s < 86400 \<or> 86400 * 3652060 \<le> s then Inl ValueError else Inr s)"

text \<open>\<^verbatim>\<open>local(u)\<close>: the local wall-clock reading at the instant \<open>u\<close>.\<close>

definition local_seconds :: "(int \<Rightarrow> int) \<Rightarrow> int \<Rightarrow> error + int" where
  "local_seconds gmtoff u = utc_to_seconds (u + gmtoff (u - epoch))"

text \<open>
  \<^verbatim>\<open>local_to_seconds\<close> with \<^verbatim>\<open>fold=0\<close> (the fold of every value that is parsed from a
  request): the instant \<open>u\<close> whose local reading is \<open>t\<close>. It tries the offset at \<open>t\<close>,
  then looks a day earlier for another offset, and reads the local clock at every
  instant it tries.
\<close>

definition local_to_seconds :: "(int \<Rightarrow> int) \<Rightarrow> int \<Rightarrow> error + int" where
  "local_to_seconds gmtoff t =
     (case local_seconds gmtoff t of
        Inl e \<Rightarrow> Inl e
      | Inr lt \<Rightarrow>
     (let a = lt - t; u1 = t - a
      in case local_seconds gmtoff u1 of
           Inl e \<Rightarrow> Inl e
         | Inr t1 \<Rightarrow>
        (case (if t1 = t
               then (case local_seconds gmtoff (u1 - max_fold_seconds) of
                       Inl e \<Rightarrow> Inl e
                     | Inr lt' \<Rightarrow> Inr (lt' - (u1 - max_fold_seconds)))
               else Inr (t1 - u1)) of
           Inl e \<Rightarrow> Inl e
         | Inr b \<Rightarrow>
             if t1 = t \<and> a = b then Inr u1
             else (let u2 = t - b
                   in case local_seconds gmtoff u2 of
                        Inl e \<Rightarrow> Inl e
                      | Inr t2 \<Rightarrow>
                          if t2 = t then Inr u2
                          else if t1 = t then Inr u1
                          else Inr (max u1 u2)))))"

text \<open>
  \<^verbatim>\<open>local_timezone_from_local\<close>: the offset of local time at that instant, in
  microseconds. \<^verbatim>\<open>timezone\<close> raises \<^verbatim>\<open>ValueError\<close> for an offset that is not strictly
  between minus and plus 24 hours.
\<close>

definition local_timezone_from_local :: "(int \<Rightarrow> int) \<Rightarrow> datetime \<Rightarrow> error + int" where
  "local_timezone_from_local gmtoff dt =
     (case local_to_seconds gmtoff (86400 + wall dt div 1000000) of
        Inl e \<Rightarrow> Inl e
      | Inr seconds \<Rightarrow>
          (let off = gmtoff (seconds - epoch)
           in if off \<le> - 86400 \<or> 86400 \<le> off then Inl ValueError
              else Inr (off * 1000000)))"

text \<open>
  \<^verbatim>\<open>dt.astimezone(tz=timezone.utc)\<close>: the offset of an aware value is its own, that of a
  naive value is the local zone's; the offset is subtracted and the result carries
  UTC. The subtraction raises \<^verbatim>\<open>OverflowError\<close> outside
  \<^verbatim>\<open>datetime.min .. datetime.max\<close>.
\<close>

definition astimezone_utc :: "(int \<Rightarrow> int) \<Rightarrow> datetime \<Rightarrow> error + datetime" where
  "astimezone_utc gmtoff dt =
     (case (case tzinfo dt of
              Some k \<Rightarrow> Inr k
            | None \<Rightarrow> local_timezone_from_local gmtoff dt) of
        Inl e \<Rightarrow> Inl e
      | Inr myoffset \<Rightarrow>
          (let utc = wall dt - myoffset
           in if utc < datetime_min \<or> datetime_max < utc then Inl OverflowError
              else Inr \<lparr>wall = utc, tzinfo = Some 0\<rparr>))"

text \<open>\<^verbatim>\<open>datetime.utcnow()\<close> for a clock that reads \<open>now\<close> microseconds: a naive value.\<close>

definition utcnow :: "int \<Rightarrow> datetime" where
  "utcnow now = \<lparr>wall = now, tzinfo = None\<rparr>"

text \<open>\<^verbatim>\<open>dt.replace(microsecond=0)\<close>.\<close>

definition replace_microsecond_0 :: "datetime \<Rightarrow> datetime" where
  "replace_microsecond_0 dt = dt\<lparr>wall := wall dt - wall dt mod 1000000\<rparr>"

section \<open>The storage engine\<close>

text \<open>
  The relational engine is reached through SQLAlchemy, which is not part of the
  sources. The table is the list of its rows in insertion order. A new row gets the
  key after the largest one in the table. A written row is checked against the
  \<^verbatim>\<open>nullable=False\<close> columns of the migration and, where the engine enforces it,
  against the foreign key to \<^verbatim>\<open>spool.id\<close>.
\<close>

definition new_id :: "database \<Rightarrow> int" where
  "new_id d = fold max (map id' (print_jobs d)) 0 + 1"

definition constraints_ok :: "bool \<Rightarrow> database \<Rightarrow> print_job \<Rightarrow> bool" where
  "constraints_ok fk d j =
     (case (spool_id j, name j, weight_used j) of
        (Some s, Some n, Some g) \<Rightarrow> (if fk then spools d s \<noteq> None else True)
      | _ \<Rightarrow> False)"

text \<open>
  \<^verbatim>\<open>await db.commit()\<close>: \<open>pending\<close> is the row that the transaction inserts or updates
  (none for a deletion), \<open>d\<close> the contents the transaction leaves. A violated constraint
  raises \<^verbatim>\<open>IntegrityError\<close> and writes nothing.
\<close>

definition commit :: "'w env \<Rightarrow> print_job option \<Rightarrow> database \<Rightarrow> 'w world \<Rightarrow> error + 'w world" where
  "commit env pending d w =
     (if (case pending of None \<Rightarrow> True | Some j \<Rightarrow> constraints_ok (foreign_keys env) d j)
      then Inr (w\<lparr>db := d, effects := effects w @ [Committed d]\<rparr>)
      else Inl IntegrityError)"

definition db_add :: "print_job \<Rightarrow> database \<Rightarrow> database" where
  "db_add j d = d\<lparr>print_jobs := print_jobs d @ [j]\<rparr>"

definition db_merge :: "print_job \<Rightarrow> database \<Rightarrow> database" where
  "db_merge j d = d\<lparr>print_jobs := map (\<lambda>r. if id' r = id' j then j else r) (print_jobs d)\<rparr>"

definition db_delete :: "print_job \<Rightarrow> database \<Rightarrow> database" where
  "db_delete j d = d\<lparr>print_jobs := filter (\<lambda>r. id' r \<noteq> id' j) (print_jobs d)\<rparr>"

text \<open>
  \<^verbatim>\<open>LIMIT\<close> and \<^verbatim>\<open>OFFSET\<close> as SQLite, the engine's default, reads them: a negative limit is
  no limit, a negative offset is no offset.
\<close>

definition sql_offset :: "int \<Rightarrow> 'a list \<Rightarrow> 'a list" where
  "sql_offset k rows = (if k < 0 then rows else drop (nat k) rows)"

definition sql_limit :: "int \<Rightarrow> 'a list \<Rightarrow> 'a list" where
  "sql_limit k rows = (if k < 0 then rows else take (nat k) rows)"

text \<open>\<^verbatim>\<open>rows.unique()\<close>: the first occurrence of every row, in order.\<close>

definition unique :: "'a list \<Rightarrow> 'a list" where
  "unique rows = rev (remdups (rev rows))"

section \<open>The data access layer: \<^verbatim>\<open>spoolman/database/print_job.py\<close>\<close>

text \<open>\<^verbatim>\<open>utc_timezone_naive\<close>: convert to UTC and remove the time zone.\<close>

definition utc_timezone_naive :: "(int \<Rightarrow> int) \<Rightarrow> datetime \<Rightarrow> error + datetime" where
  "utc_timezone_naive local dt =
     (case astimezone_utc local dt of
        Inl e \<Rightarrow> Inl e
      | Inr u \<Rightarrow> Inr (u\<lparr>tzinfo := None\<rparr>))"

text \<open>
  Modelled from the spec: \<^verbatim>\<open>spool.get_by_id\<close> belongs to \<^verbatim>\<open>spoolman.database.spool\<close>,
  which is not part of the sources. The spec gives its contract where it describes
  \<^verbatim>\<open>create\<close>: \<^emph>\<open>fails NotFound if referenced Spool missing\<close>; the code calls it under the
  comment \<^verbatim>\<open># Verify spool exists\<close>. It reads the store and changes nothing. The
  wording of its message follows \<^verbatim>\<open>get_by_id\<close> of this file; no property depends on it.
\<close>

definition spool_get_by_id :: "database \<Rightarrow> int \<Rightarrow> error + spool" where
  "spool_get_by_id d spool_id_arg =
     (case spools d spool_id_arg of
        None \<Rightarrow> Inl (ItemNotFoundError (''No spool with ID '' @ str spool_id_arg @ '' found.''))
      | Some spool_item \<Rightarrow> Inr spool_item)"

text \<open>
  \<^verbatim>\<open>print_job_changed\<close>: one call of \<^verbatim>\<open>websocket_manager.send\<close> on the topic
  \<^verbatim>\<open>("print_job", str(print_job.id))\<close>, inside \<^verbatim>\<open>try: ... except Exception:\<close>, whose
  handler logs and returns. \<open>now\<close> is the clock reading of \<^verbatim>\<open>datetime.utcnow()\<close>.
\<close>

definition print_job_changed ::
  "'w env \<Rightarrow> print_job \<Rightarrow> event_type \<Rightarrow> int \<Rightarrow> 'w world \<Rightarrow> (error + unit) \<times> 'w world" where
  "print_job_changed env print_job_arg typ now w =
     (let tp = [''print_job'', str (id' print_job_arg)];
          evt = \<lparr>type' = typ, resource = ''print_job'', date = utcnow now,
                 payload = print_job_arg\<rparr>;
          w1 = w\<lparr>effects := effects w @ [Sent tp evt]\<rparr>
      in case send env tp evt (ws w1) of
           (None, s) \<Rightarrow> (Inr (), w1\<lparr>ws := s\<rparr>)
         | (Some e, s) \<Rightarrow>
             (Inr (), w1\<lparr>ws := s, logged := logged w1 @ [''Failed to send websocket message'']\<rparr>))"

text \<open>
  \<^verbatim>\<open>create\<close>. The keyword arguments are, in the order of the source: \<open>spool_id\<close>,
  \<open>name\<close>, \<open>weight_used\<close>, \<open>started_at\<close>, \<open>completed_at\<close>, \<open>cost\<close>, \<open>revenue\<close>, \<open>notes\<close>,
  \<open>external_reference\<close> (each with the suffix \<open>_arg\<close>). \<open>now\<close> is the clock reading
  that gives \<open>registered\<close>, \<open>now'\<close> the later one that dates the event. \<open>cost_final\<close>
  is the value of \<^verbatim>\<open>cost\<close> after the block that derives it.
\<close>

definition create ::
  "'w env \<Rightarrow> int \<Rightarrow> string \<Rightarrow> float \<Rightarrow> datetime option \<Rightarrow> datetime option \<Rightarrow> float option \<Rightarrow>
   float option \<Rightarrow> string option \<Rightarrow> string option \<Rightarrow> int \<Rightarrow> int \<Rightarrow> 'w world \<Rightarrow>
   (error + print_job) \<times> 'w world" where
  "create env spool_id_arg name_arg weight_used_arg started_at_arg completed_at_arg cost_arg
     revenue_arg notes_arg external_reference_arg now now' w =
     (case spool_get_by_id (db w) spool_id_arg of
        Inl e \<Rightarrow> (Inl e, w)
      | Inr spool_item \<Rightarrow>
     (case (case started_at_arg of None \<Rightarrow> Inr None
            | Some dt \<Rightarrow> (case utc_timezone_naive (local_utcoffset env) dt of
                         Inl e \<Rightarrow> Inl e
                       | Inr u \<Rightarrow> Inr (Some u))) of
        Inl e \<Rightarrow> (Inl e, w)
      | Inr started \<Rightarrow>
     (case (case completed_at_arg of None \<Rightarrow> Inr None
            | Some dt \<Rightarrow> (case utc_timezone_naive (local_utcoffset env) dt of
                         Inl e \<Rightarrow> Inl e
                       | Inr u \<Rightarrow> Inr (Some u))) of
        Inl e \<Rightarrow> (Inl e, w)
      | Inr completed \<Rightarrow>
     (case (if cost_arg = None \<and> is_positive weight_used_arg then
              (case (if price spool_item \<noteq> None \<and> initial_weight spool_item \<noteq> None
                        \<and> is_positive (the (initial_weight spool_item))
                     then (case truediv (the (price spool_item))
                                  (the (initial_weight spool_item)) of
                             Inl e \<Rightarrow> Inl e
                           | Inr q \<Rightarrow> Inr (Some q))
                     else if filament_price (filament spool_item) \<noteq> None
                        \<and> filament_weight (filament spool_item) \<noteq> None
                        \<and> is_positive (the (filament_weight (filament spool_item)))
                     then (case truediv (the (filament_price (filament spool_item)))
                                  (the (filament_weight (filament spool_item))) of
                             Inl e \<Rightarrow> Inl e
                           | Inr q \<Rightarrow> Inr (Some q))
                     else Inr None) of
                 Inl e \<Rightarrow> Inl e
               | Inr price_per_gram \<Rightarrow>
                   Inr (if price_per_gram \<noteq> None
                        then Some (fmul weight_used_arg (the price_per_gram))
                        else cost_arg))
            else Inr cost_arg) of
        Inl e \<Rightarrow> (Inl e, w)
      | Inr cost_final \<Rightarrow>
     (let print_job_new =
            \<lparr>id' = new_id (db w),
             registered = replace_microsecond_0 (utcnow now),
             spool_id = Some spool_id_arg,
             name = Some name_arg,
             weight_used = Some weight_used_arg,
             started_at = started,
             completed_at = completed,
             cost = cost_final,
             revenue = revenue_arg,
             notes' = notes_arg,
             external_reference = external_reference_arg\<rparr>
      in case commit env (Some print_job_new) (db_add print_job_new (db w)) w of
           Inl e \<Rightarrow> (Inl e, w)
         | Inr w1 \<Rightarrow>
        (case print_job_changed env print_job_new ADDED now' w1 of
           (Inl e, w2) \<Rightarrow> (Inl e, w2)
         | (Inr u, w2) \<Rightarrow> (Inr print_job_new, w2)))))))"

text \<open>\<^verbatim>\<open>get_by_id\<close>: the row with the key, or \<^verbatim>\<open>ItemNotFoundError\<close>.\<close>

definition get_by_id :: "database \<Rightarrow> int \<Rightarrow> error + print_job" where
  "get_by_id d print_job_id =
     (case List.find (\<lambda>r. id' r = print_job_id) (print_jobs d) of
        None \<Rightarrow> Inl (ItemNotFoundError (''No print job with ID '' @ str print_job_id @ '' found.''))
      | Some print_job_found \<Rightarrow> Inr print_job_found)"

text \<open>
  \<^verbatim>\<open>find\<close>: the statement joins the spool (rows whose spool is missing drop out),
  filters by \<open>spool_id\<close> and \<open>name\<close> when given, and orders by \<open>registered\<close>, newest
  first (rows registered at the same time stay in table order). With a limit, the
  matching rows are counted before the page is cut. The result is the rows and
  \<open>total_count\<close>.
\<close>

definition find' ::
  "'w env \<Rightarrow> database \<Rightarrow> int option \<Rightarrow> string option \<Rightarrow> int option \<Rightarrow> int \<Rightarrow> print_job list \<times> int" where
  "find' env d spool_id_arg name_arg limit offset =
     (let joined = filter (\<lambda>r. case spool_id r of None \<Rightarrow> False | Some s \<Rightarrow> spools d s \<noteq> None)
                     (print_jobs d);
          by_spool = (case spool_id_arg of None \<Rightarrow> joined
                      | Some s \<Rightarrow> filter (\<lambda>r. spool_id r = Some s) joined);
          by_name = (case name_arg of None \<Rightarrow> by_spool
                     | Some n \<Rightarrow> filter (\<lambda>r. case name r of None \<Rightarrow> False
                                            | Some v \<Rightarrow> ilike env v (''%'' @ n @ ''%'')) by_spool);
          ordered = sort_key (\<lambda>r. - wall (registered r)) by_name
      in case limit of
           None \<Rightarrow> (let result = unique ordered in (result, int (length result)))
         | Some l \<Rightarrow>
             (let total_count = int (length ordered);
                  result = unique (sql_limit l (sql_offset offset ordered))
              in (result, total_count)))"

text \<open>
  \<^verbatim>\<open>update\<close>. \<open>data\<close> is a \<^verbatim>\<open>dict\<close>: a list of assignments, one per key, in iteration
  order. The value of a key has the type that \<^verbatim>\<open>PrintJobUpdateParameters\<close> gives the
  field.
\<close>

datatype assignment =
    Spool_id "int option"
  | Name "string option"
  | Weight_used "float option"
  | Started_at "datetime option"
  | Completed_at "datetime option"
  | Cost "float option"
  | Revenue "float option"
  | Notes "string option"
  | External_reference "string option"

fun key :: "assignment \<Rightarrow> string" where
  "key (Spool_id v) = ''spool_id''"
| "key (Name v) = ''name''"
| "key (Weight_used v) = ''weight_used''"
| "key (Started_at v) = ''started_at''"
| "key (Completed_at v) = ''completed_at''"
| "key (Cost v) = ''cost''"
| "key (Revenue v) = ''revenue''"
| "key (Notes v) = ''notes''"
| "key (External_reference v) = ''external_reference''"

text \<open>\<^verbatim>\<open>setattr(print_job, k, v)\<close>.\<close>

fun setattr :: "print_job \<Rightarrow> assignment \<Rightarrow> print_job" where
  "setattr j (Spool_id v) = j\<lparr>spool_id := v\<rparr>"
| "setattr j (Name v) = j\<lparr>name := v\<rparr>"
| "setattr j (Weight_used v) = j\<lparr>weight_used := v\<rparr>"
| "setattr j (Started_at v) = j\<lparr>started_at := v\<rparr>"
| "setattr j (Completed_at v) = j\<lparr>completed_at := v\<rparr>"
| "setattr j (Cost v) = j\<lparr>cost := v\<rparr>"
| "setattr j (Revenue v) = j\<lparr>revenue := v\<rparr>"
| "setattr j (Notes v) = j\<lparr>notes' := v\<rparr>"
| "setattr j (External_reference v) = j\<lparr>external_reference := v\<rparr>"

text \<open>
  The body of the loop: a value that is a \<^verbatim>\<open>datetime\<close> is converted first, any other
  value (\<^verbatim>\<open>None\<close> included) is assigned as it is.
\<close>

fun assign :: "(int \<Rightarrow> int) \<Rightarrow> print_job \<Rightarrow> assignment \<Rightarrow> error + print_job" where
  "assign local j (Started_at (Some dt)) =
     (case utc_timezone_naive local dt of
        Inl e \<Rightarrow> Inl e
      | Inr u \<Rightarrow> Inr (setattr j (Started_at (Some u))))"
| "assign local j (Completed_at (Some dt)) =
     (case utc_timezone_naive local dt of
        Inl e \<Rightarrow> Inl e
      | Inr u \<Rightarrow> Inr (setattr j (Completed_at (Some u))))"
| "assign local j a = Inr (setattr j a)"

fun assign_all :: "(int \<Rightarrow> int) \<Rightarrow> print_job \<Rightarrow> assignment list \<Rightarrow> error + print_job" where
  "assign_all local j [] = Inr j"
| "assign_all local j (a # data) =
     (case assign local j a of
        Inl e \<Rightarrow> Inl e
      | Inr j1 \<Rightarrow> assign_all local j1 data)"

definition update ::
  "'w env \<Rightarrow> int \<Rightarrow> assignment list \<Rightarrow> int \<Rightarrow> 'w world \<Rightarrow> (error + print_job) \<times> 'w world" where
  "update env print_job_id data now w =
     (case get_by_id (db w) print_job_id of
        Inl e \<Rightarrow> (Inl e, w)
      | Inr print_job_old \<Rightarrow>
     (case assign_all (local_utcoffset env) print_job_old data of
        Inl e \<Rightarrow> (Inl e, w)
      | Inr print_job_new \<Rightarrow>
     (case commit env (Some print_job_new) (db_merge print_job_new (db w)) w of
        Inl e \<Rightarrow> (Inl e, w)
      | Inr w1 \<Rightarrow>
     (case print_job_changed env print_job_new UPDATED now w1 of
        (Inl e, w2) \<Rightarrow> (Inl e, w2)
      | (Inr u, w2) \<Rightarrow> (Inr print_job_new, w2)))))"

text \<open>\<^verbatim>\<open>delete\<close>: the event is sent first, then the row is deleted and the deletion committed.\<close>

definition delete :: "'w env \<Rightarrow> int \<Rightarrow> int \<Rightarrow> 'w world \<Rightarrow> (error + unit) \<times> 'w world" where
  "delete env print_job_id now w =
     (case get_by_id (db w) print_job_id of
        Inl e \<Rightarrow> (Inl e, w)
      | Inr print_job_old \<Rightarrow>
     (case print_job_changed env print_job_old DELETED now w of
        (Inl e, w1) \<Rightarrow> (Inl e, w1)
      | (Inr u, w1) \<Rightarrow>
     (case commit env None (db_delete print_job_old (db w1)) w1 of
        Inl e \<Rightarrow> (Inl e, w1)
      | Inr w2 \<Rightarrow> (Inr (), w2))))"

section \<open>The update endpoint: \<^verbatim>\<open>spoolman/api/v1/print_job.py\<close>\<close>

text \<open>
  A field of the request body \<^verbatim>\<open>PrintJobUpdateParameters\<close> is either left unset by
  the request or given a value, which may be \<^verbatim>\<open>None\<close> (JSON \<^verbatim>\<open>null\<close>).
\<close>

datatype 'a field = Unset | Given 'a

record print_job_update_parameters =
  body_spool_id :: "int option field"
  body_name :: "string option field"
  body_weight_used :: "float option field"
  body_started_at :: "datetime option field"
  body_completed_at :: "datetime option field"
  body_cost :: "float option field"
  body_revenue :: "float option field"
  body_notes :: "string option field"
  body_external_reference :: "string option field"

definition dump_field :: "('a \<Rightarrow> assignment) \<Rightarrow> 'a field \<Rightarrow> assignment list" where
  "dump_field mk f = (case f of Unset \<Rightarrow> [] | Given v \<Rightarrow> [mk v])"

text \<open>\<^verbatim>\<open>body.model_dump(exclude_unset=True)\<close>: the fields that the request has set, in the order of their declaration.\<close>

definition model_dump_exclude_unset :: "print_job_update_parameters \<Rightarrow> assignment list" where
  "model_dump_exclude_unset body =
     dump_field Spool_id (body_spool_id body) @
     dump_field Name (body_name body) @
     dump_field Weight_used (body_weight_used body) @
     dump_field Started_at (body_started_at body) @
     dump_field Completed_at (body_completed_at body) @
     dump_field Cost (body_cost body) @
     dump_field Revenue (body_revenue body) @
     dump_field Notes (body_notes body) @
     dump_field External_reference (body_external_reference body)"

text \<open>
  The endpoint \<^verbatim>\<open>update\<close> (\<^verbatim>\<open>PATCH /print-job/{print_job_id}\<close>). Its answer is
  \<^verbatim>\<open>PrintJob.from_db(db_item)\<close>, the snapshot of the returned row.
\<close>

definition api_update ::
  "'w env \<Rightarrow> int \<Rightarrow> print_job_update_parameters \<Rightarrow> int \<Rightarrow> 'w world \<Rightarrow>
   (error + print_job) \<times> 'w world" where
  "api_update env print_job_id body now w =
     (let patch_data = model_dump_exclude_unset body
      in case update env print_job_id patch_data now w of
           (Inl e, w1) \<Rightarrow> (Inl e, w1)
         | (Inr db_item, w1) \<Rightarrow> (Inr db_item, w1))"

section \<open>The change notifier\<close>

text \<open>
  Modelled from the spec: the module \<^verbatim>\<open>spoolman.ws\<close> (\<^verbatim>\<open>websocket_manager\<close>) is not part
  of the sources. Section 4.1 of the spec describes it: a registry from topics to the
  connections subscribed to them; \<^emph>\<open>subscribe(topic, connection)\<close> registers,
  \<^emph>\<open>unsubscribe(topic, connection)\<close> removes and is no error when nothing is removed,
  and \<^emph>\<open>publish(topic, event) delivers the event to every connection currently
  subscribed to that exact topic. Delivery to each connection is attempted
  independently; a failure on one connection must not prevent delivery to others,
  must not raise out of publish\<close>; a connection whose delivery fails is removed from
  the registry. A connection is a number; \<open>inbox\<close> holds what a connection has been
  sent, oldest first; \<open>broken\<close> lists the connections whose transport fails.
\<close>

record ws_manager =
  subscriptions :: "(topic \<times> nat) list"
  inbox :: "nat \<Rightarrow> print_job_event list"
  broken :: "nat list"

definition subscribed :: "ws_manager \<Rightarrow> topic \<Rightarrow> nat \<Rightarrow> bool" where
  "subscribed m tp c = ((tp, c) \<in> set (subscriptions m))"

definition subscribe :: "topic \<Rightarrow> nat \<Rightarrow> ws_manager \<Rightarrow> ws_manager" where
  "subscribe tp c m = m\<lparr>subscriptions := List.insert (tp, c) (subscriptions m)\<rparr>"

definition unsubscribe :: "topic \<Rightarrow> nat \<Rightarrow> ws_manager \<Rightarrow> ws_manager" where
  "unsubscribe tp c m = m\<lparr>subscriptions := removeAll (tp, c) (subscriptions m)\<rparr>"

definition publish :: "topic \<Rightarrow> print_job_event \<Rightarrow> ws_manager \<Rightarrow> ws_manager" where
  "publish tp evt m =
     m\<lparr>inbox := (\<lambda>c. if subscribed m tp c \<and> c \<notin> set (broken m) then inbox m c @ [evt]
                      else inbox m c),
       subscriptions := filter (\<lambda>(t, c). \<not> (t = tp \<and> c \<in> set (broken m))) (subscriptions m)\<rparr>"

text \<open>\<^verbatim>\<open>websocket_manager.send\<close> as the spec's \<open>publish\<close>: it never raises.\<close>

definition notifier_send :: "topic \<Rightarrow> print_job_event \<Rightarrow> ws_manager \<Rightarrow> error option \<times> ws_manager" where
  "notifier_send tp evt m = (None, publish tp evt m)"

section \<open>Reading attributes\<close>

text \<open>
  The properties of \<^verbatim>\<open>update\<close> speak of the attribute that a key names.
  \<open>getattr j k\<close> is \<^verbatim>\<open>getattr(print_job, k)\<close> for the keys of the request body, given
  as the assignment that would store the same value. \<open>convert local a\<close> is the value
  that the loop of \<^verbatim>\<open>update\<close> hands to \<^verbatim>\<open>setattr\<close> for the item \<open>a\<close>.
\<close>

definition getattr :: "print_job \<Rightarrow> string \<Rightarrow> assignment option" where
  "getattr j k =
     (if k = ''spool_id'' then Some (Spool_id (spool_id j))
      else if k = ''name'' then Some (Name (name j))
      else if k = ''weight_used'' then Some (Weight_used (weight_used j))
      else if k = ''started_at'' then Some (Started_at (started_at j))
      else if k = ''completed_at'' then Some (Completed_at (completed_at j))
      else if k = ''cost'' then Some (Cost (cost j))
      else if k = ''revenue'' then Some (Revenue (revenue j))
      else if k = ''notes'' then Some (Notes (notes' j))
      else if k = ''external_reference'' then Some (External_reference (external_reference j))
      else None)"

fun convert :: "(int \<Rightarrow> int) \<Rightarrow> assignment \<Rightarrow> error + assignment" where
  "convert local (Started_at (Some dt)) =
     (case utc_timezone_naive local dt of
        Inl e \<Rightarrow> Inl e
      | Inr u \<Rightarrow> Inr (Started_at (Some u)))"
| "convert local (Completed_at (Some dt)) =
     (case utc_timezone_naive local dt of
        Inl e \<Rightarrow> Inl e
      | Inr u \<Rightarrow> Inr (Completed_at (Some u)))"
| "convert local a = Inr a"

section \<open>An example store\<close>

text \<open>
  A store with one spool (number 1, priced 20 for 100 grams) and the jobs 5 and 7,
  and a notifier with three connections: 0 listens to job 5, 1 to the collection,
  2 to job 7. The local time zone of the example is UTC and the engine does not
  enforce foreign keys.
\<close>

definition example_env :: "ws_manager env" where
  "example_env =
     \<lparr>send = notifier_send, local_utcoffset = (\<lambda>t. 0), ilike = (\<lambda>v p. True),
      foreign_keys = False\<rparr>"

definition example_spool :: spool where
  "example_spool =
     \<lparr>price = Some (float_literal 20), initial_weight = Some (float_literal 100),
      filament = \<lparr>filament_price = Some (float_literal 30),
                  filament_weight = Some (float_literal 1000)\<rparr>\<rparr>"

definition example_job :: "int \<Rightarrow> int \<Rightarrow> print_job" where
  "example_job i t =
     \<lparr>id' = i, registered = \<lparr>wall = t, tzinfo = None\<rparr>, spool_id = Some 1,
      name = Some ''Benchy'', weight_used = Some (float_literal 15.5), started_at = None,
      completed_at = None, cost = Some (float_literal 3.1), revenue = None, notes' = None,
      external_reference = None\<rparr>"

definition example_ws :: ws_manager where
  "example_ws =
     \<lparr>subscriptions = [([''print_job'', ''5''], 0), ([''print_job''], 1), ([''print_job'', ''7''], 2)],
      inbox = (\<lambda>c. []), broken = []\<rparr>"

definition example_db :: database where
  "example_db =
     \<lparr>spools = (\<lambda>i. if i = 1 then Some example_spool else None),
      print_jobs = [example_job 5 1000000, example_job 7 3000000]\<rparr>"

definition example_world :: "ws_manager world" where
  "example_world = \<lparr>db = example_db, ws = example_ws, logged = [], effects = []\<rparr>"

text \<open>
  A request body for the update endpoint: a new name, a new weight and a start time
  of 02:00 at UTC+1 on the first day; every other field is unset.
\<close>

definition example_body :: print_job_update_parameters where
  "example_body =
     \<lparr>body_spool_id = Unset, body_name = Given (Some ''Boat''),
      body_weight_used = Given (Some (float_literal 20)),
      body_started_at = Given (Some \<lparr>wall = 7200000000, tzinfo = Some 3600000000\<rparr>),
      body_completed_at = Unset, body_cost = Unset, body_revenue = Unset,
      body_notes = Unset, body_external_reference = Unset\<rparr>"

definition example_updated :: print_job where
  "example_updated =
     (example_job 5 1000000)
       \<lparr>name := Some ''Boat'', weight_used := Some (float_literal 20),
        started_at := Some \<lparr>wall = 3600000000, tzinfo = None\<rparr>\<rparr>"

text \<open>A \<^verbatim>\<open>send\<close> that raises on every call and delivers nothing.\<close>

definition failing_send :: "topic \<Rightarrow> print_job_event \<Rightarrow> ws_manager \<Rightarrow> error option \<times> ws_manager" where
  "failing_send tp evt m = (Some (Exception ''connection closed''), m)"

section \<open>Properties of the built-ins\<close>

subsection \<open>\<^verbatim>\<open>str\<close> is injective\<close>

lemma digit_char_inj: "d < 10 \<Longrightarrow> e < 10 \<Longrightarrow> digit_char d = digit_char e \<Longrightarrow> d = e"
  unfolding digit_char_def
  by (subst (asm) nth_eq_iff_index_eq) simp_all

lemma digit_char_not_minus: "d < 10 \<Longrightarrow> digit_char d \<noteq> CHR ''-''"
proof -
  assume "d < 10"
  then have "digit_char d \<in> set ''0123456789''"
    unfolding digit_char_def by (intro nth_mem) simp
  then show ?thesis by auto
qed

lemma str_nat_not_Nil: "str_nat n \<noteq> []"
  by (subst str_nat.simps) simp

lemma str_nat_not_Nil': "[] \<noteq> str_nat n"
  using str_nat_not_Nil [of n] by simp

lemma hd_str_nat: "hd (str_nat n) \<noteq> CHR ''-''"
proof (induction n rule: str_nat.induct)
  case (1 n)
  show ?case
  proof (cases "n < 10")
    case True
    then show ?thesis by (subst str_nat.simps) (simp add: digit_char_not_minus)
  next
    case False
    with 1 have "hd (str_nat (n div 10)) \<noteq> CHR ''-''" by simp
    with False show ?thesis
      by (subst str_nat.simps) (simp add: str_nat_not_Nil)
  qed
qed

lemma str_nat_inj: "str_nat n = str_nat m \<Longrightarrow> n = m"
proof (induction n arbitrary: m rule: str_nat.induct)
  case (1 n)
  show ?case
  proof (cases "n < 10")
    case n: True
    show ?thesis
    proof (cases "m < 10")
      case True
      with n 1(2) show ?thesis
        by (simp add: str_nat.simps [of n] str_nat.simps [of m] digit_char_inj)
    next
      case False
      with n 1(2) show ?thesis
        by (simp add: str_nat.simps [of n] str_nat.simps [of m] str_nat_not_Nil str_nat_not_Nil')
    qed
  next
    case n: False
    show ?thesis
    proof (cases "m < 10")
      case True
      with n 1(2) show ?thesis
        by (simp add: str_nat.simps [of n] str_nat.simps [of m] str_nat_not_Nil str_nat_not_Nil')
    next
      case False
      with n 1(2) have eq: "str_nat (n div 10) = str_nat (m div 10)"
        and dg: "digit_char (n mod 10) = digit_char (m mod 10)"
        by (simp_all add: str_nat.simps [of n] str_nat.simps [of m])
      from 1(1) [OF n eq] have "n div 10 = m div 10" .
      moreover from dg have "n mod 10 = m mod 10"
        by (rule digit_char_inj [rotated 2]) simp_all
      ultimately show ?thesis
        by (metis div_mult_mod_eq)
    qed
  qed
qed

lemma str_nat_no_sign: "CHR ''-'' # s \<noteq> str_nat n"
  using hd_str_nat [of n] by (metis list.sel(1))

lemma str_inj: "str i = str k \<Longrightarrow> i = k"
proof -
  assume eq: "str i = str k"
  show ?thesis
  proof (cases "i < 0")
    case i: True
    show ?thesis
    proof (cases "k < 0")
      case True
      with i eq have "str_nat (nat (- i)) = str_nat (nat (- k))" by (simp add: str_def)
      then have "nat (- i) = nat (- k)" by (rule str_nat_inj)
      with i True show ?thesis by simp
    next
      case False
      with i eq show ?thesis by (simp add: str_def str_nat_no_sign)
    qed
  next
    case i: False
    show ?thesis
    proof (cases "k < 0")
      case True
      with i eq have "CHR ''-'' # str_nat (nat (- k)) = str_nat (nat i)" by (simp add: str_def)
      then show ?thesis by (simp add: str_nat_no_sign)
    next
      case False
      with i eq have "str_nat (nat i) = str_nat (nat k)" by (simp add: str_def)
      then have "nat i = nat k" by (rule str_nat_inj)
      with i False show ?thesis by simp
    qed
  qed
qed

lemma str_eq_iff: "str i = str k \<longleftrightarrow> i = k"
  using str_inj by blast

subsection \<open>Division under a guard\<close>

lemma truediv_positive: "is_positive y \<Longrightarrow> truediv x y = Inr (fdiv x y)"
  by (cases y) (auto simp: truediv_def)

subsection \<open>Conversion to UTC\<close>

lemma utc_timezone_naive_aware:
  "utc_timezone_naive local dt = Inr u \<Longrightarrow> tzinfo dt = Some k \<Longrightarrow>
   u = \<lparr>wall = wall dt - k, tzinfo = None\<rparr>"
  by (auto simp: utc_timezone_naive_def astimezone_utc_def Let_def split: if_splits sum.splits)

lemma utc_to_seconds_error: "utc_to_seconds s = Inl e \<Longrightarrow> e = ValueError"
  by (simp add: utc_to_seconds_def split: if_splits)

lemma local_seconds_error: "local_seconds gmtoff u = Inl e \<Longrightarrow> e = ValueError"
  unfolding local_seconds_def by (rule utc_to_seconds_error)

lemma local_to_seconds_error: "local_to_seconds gmtoff t = Inl e \<Longrightarrow> e = ValueError"
  by (auto simp: local_to_seconds_def Let_def split: sum.splits if_splits
      dest: local_seconds_error)

lemma local_timezone_from_local_error:
  "local_timezone_from_local gmtoff dt = Inl e \<Longrightarrow> e = ValueError"
  by (auto simp: local_timezone_from_local_def Let_def split: sum.splits if_splits
      dest: local_to_seconds_error)

lemma astimezone_utc_error:
  "astimezone_utc gmtoff dt = Inl e \<Longrightarrow> e = OverflowError \<or> e = ValueError"
  by (auto simp: astimezone_utc_def Let_def split: sum.splits if_splits option.splits
      dest: local_timezone_from_local_error)

lemma utc_timezone_naive_error:
  "utc_timezone_naive local dt = Inl e \<Longrightarrow> e = OverflowError \<or> e = ValueError"
  by (auto simp: utc_timezone_naive_def split: sum.splits dest: astimezone_utc_error)

lemma convert_cases:
  "(\<exists>dt e. v = Some dt \<and> utc_timezone_naive local dt = Inl e) \<or>
   (\<exists>u. map_option (utc_timezone_naive local) v = map_option Inr u)"
proof (cases v)
  case None
  then have "map_option (utc_timezone_naive local) v = map_option Inr None" by simp
  then show ?thesis by blast
next
  case (Some dt)
  show ?thesis
  proof (cases "utc_timezone_naive local dt")
    case (Inl e)
    with Some show ?thesis by blast
  next
    case (Inr u)
    with Some have "map_option (utc_timezone_naive local) v = map_option Inr (Some u)" by simp
    then show ?thesis by blast
  qed
qed

section \<open>Properties of the storage engine\<close>

subsection \<open>Keys and rows\<close>

lemma fold_max_lower: "(a::int) \<le> fold max xs a"
  by (induction xs arbitrary: a) (auto intro: order_trans [OF max.cobounded2])

lemma fold_max_ge: "x \<in> set xs \<Longrightarrow> (x::int) \<le> fold max xs a"
proof (induction xs arbitrary: a)
  case Nil
  then show ?case by simp
next
  case (Cons y xs)
  show ?case
  proof (cases "x = y")
    case True
    have "y \<le> max y a" by simp
    also have "\<dots> \<le> fold max xs (max y a)" by (rule fold_max_lower)
    finally show ?thesis using True by simp
  next
    case False
    with Cons show ?thesis by simp
  qed
qed

lemma new_id_fresh: "r \<in> set (print_jobs d) \<Longrightarrow> id' r \<noteq> new_id d"
  using fold_max_ge [of "id' r" "map id' (print_jobs d)" 0]
  by (auto simp: new_id_def)

lemma find_append_fresh:
  "\<forall>r\<in>set rows. \<not> P r \<Longrightarrow> P j \<Longrightarrow> List.find P (rows @ [j]) = Some j"
  by (induction rows) auto

lemma get_by_id_db_add:
  "id' j = new_id d \<Longrightarrow> get_by_id (db_add j d) (id' j) = Inr j"
  using find_append_fresh [of "print_jobs d" "\<lambda>r. id' r = new_id d" j] new_id_fresh [of _ d]
  by (auto simp: get_by_id_def db_add_def)

lemma get_by_id_key: "get_by_id d i = Inr j \<Longrightarrow> id' j = i \<and> j \<in> set (print_jobs d)"
  by (auto simp: get_by_id_def find_Some_iff split: option.splits)

lemma find_merge:
  "id' j1 = i \<Longrightarrow>
   List.find (\<lambda>r. id' r = k) (map (\<lambda>r. if id' r = i then j1 else r) rows) =
   (if k = i then map_option (\<lambda>r. j1) (List.find (\<lambda>r. id' r = k) rows)
    else List.find (\<lambda>r. id' r = k) rows)"
  by (induction rows) auto

lemma get_by_id_db_merge:
  "get_by_id d i = Inr j \<Longrightarrow> id' j1 = i \<Longrightarrow> get_by_id (db_merge j1 d) i = Inr j1"
  by (auto simp: get_by_id_def db_merge_def find_merge split: option.splits)

lemma get_by_id_db_merge_other:
  "k \<noteq> id' j1 \<Longrightarrow> get_by_id (db_merge j1 d) k = get_by_id d k"
  by (simp add: get_by_id_def db_merge_def find_merge)

lemma spools_db_add [simp]: "spools (db_add j d) = spools d"
  by (simp add: db_add_def)

lemma spools_db_merge [simp]: "spools (db_merge j d) = spools d"
  by (simp add: db_merge_def)

lemma get_by_id_spools [simp]: "get_by_id (d\<lparr>spools := S\<rparr>) i = get_by_id d i"
  by (simp add: get_by_id_def)

subsection \<open>Commit\<close>

lemma commit_send [simp]: "commit (env\<lparr>send := s\<rparr>) p d w = commit env p d w"
  by (cases p) (simp_all add: commit_def)

lemma commit_Inr: "commit env p d w = Inr w1 \<Longrightarrow> w1 = w\<lparr>db := d, effects := effects w @ [Committed d]\<rparr>"
  by (simp add: commit_def split: if_splits)

subsection \<open>Pages of a sorted list\<close>

lemma sorted_wrt_remdups: "sorted_wrt P xs \<Longrightarrow> sorted_wrt P (remdups xs)"
  by (induction xs) auto

lemma sorted_wrt_unique: "sorted_wrt P xs \<Longrightarrow> sorted_wrt P (unique xs)"
  unfolding unique_def
  by (simp add: sorted_wrt_rev sorted_wrt_remdups)

lemma length_unique: "length (unique xs) \<le> length xs"
  unfolding unique_def
  using length_remdups_leq [of "rev xs"] by simp

lemma sorted_wrt_sql_offset: "sorted_wrt P xs \<Longrightarrow> sorted_wrt P (sql_offset k xs)"
  by (simp add: sql_offset_def sorted_wrt_drop)

lemma sorted_wrt_sql_limit: "sorted_wrt P xs \<Longrightarrow> sorted_wrt P (sql_limit k xs)"
  by (simp add: sql_limit_def sorted_wrt_take)

lemma length_sql_offset: "length (sql_offset k xs) \<le> length xs"
  by (simp add: sql_offset_def)

lemma length_sql_limit: "length (sql_limit k xs) \<le> length xs"
  by (simp add: sql_limit_def)

lemma length_sql_limit_bound: "0 \<le> k \<Longrightarrow> int (length (sql_limit k xs)) \<le> k"
  by (simp add: sql_limit_def)

lemma newest_first_sort_key:
  "sorted_wrt (\<lambda>a b. wall (registered b) \<le> wall (registered a))
     (sort_key (\<lambda>r. - wall (registered r)) rows)"
proof -
  have "sorted (map (\<lambda>r. - wall (registered r)) (sort_key (\<lambda>r. - wall (registered r)) rows))"
    by (rule sorted_sort_key)
  then show ?thesis by (simp add: sorted_map)
qed

section \<open>Properties of the data access layer\<close>

subsection \<open>\<^verbatim>\<open>print_job_changed\<close>\<close>

lemma print_job_changed_eq:
  "print_job_changed env j typ now w =
     (Inr (),
      w\<lparr>effects := effects w @ [Sent [''print_job'', str (id' j)]
                     \<lparr>type' = typ, resource = ''print_job'', date = utcnow now, payload = j\<rparr>],
        ws := snd (send env [''print_job'', str (id' j)]
                     \<lparr>type' = typ, resource = ''print_job'', date = utcnow now, payload = j\<rparr> (ws w)),
        logged := logged w @
          (if fst (send env [''print_job'', str (id' j)]
                     \<lparr>type' = typ, resource = ''print_job'', date = utcnow now, payload = j\<rparr> (ws w)) = None
           then [] else [''Failed to send websocket message''])\<rparr>)"
  by (simp add: print_job_changed_def Let_def split: prod.splits option.splits)

lemma print_job_changed_fst [simp]: "fst (print_job_changed env j typ now w) = Inr ()"
  by (simp add: print_job_changed_eq)

lemma print_job_changed_db [simp]: "db (snd (print_job_changed env j typ now w)) = db w"
  by (simp add: print_job_changed_eq)

lemma after_print_job_changed:
  "(case print_job_changed env j typ now w of (Inl e, w2) \<Rightarrow> (Inl e, w2) | (Inr u, w2) \<Rightarrow> (Inr r, w2))
   = (Inr r, snd (print_job_changed env j typ now w))"
  by (simp add: print_job_changed_eq)

subsection \<open>\<^verbatim>\<open>create\<close>\<close>

lemma derived_cost:
  "(if c = None \<and> is_positive wt then
      (case (if price s \<noteq> None \<and> initial_weight s \<noteq> None
                \<and> is_positive (the (initial_weight s))
             then (case truediv (the (price s)) (the (initial_weight s)) of
                     Inl e \<Rightarrow> Inl e
                   | Inr q \<Rightarrow> Inr (Some q))
             else if filament_price (filament s) \<noteq> None
                \<and> filament_weight (filament s) \<noteq> None
                \<and> is_positive (the (filament_weight (filament s)))
             then (case truediv (the (filament_price (filament s)))
                          (the (filament_weight (filament s))) of
                     Inl e \<Rightarrow> Inl e
                   | Inr q \<Rightarrow> Inr (Some q))
             else Inr None) of
         Inl e \<Rightarrow> Inl e
       | Inr price_per_gram \<Rightarrow>
           Inr (if price_per_gram \<noteq> None then Some (fmul wt (the price_per_gram)) else c))
    else Inr c)
   = Inr (if c = None \<and> is_positive wt then
               (if price s \<noteq> None \<and> initial_weight s \<noteq> None
                   \<and> is_positive (the (initial_weight s))
                then Some (fmul wt (fdiv (the (price s)) (the (initial_weight s))))
                else if filament_price (filament s) \<noteq> None
                   \<and> filament_weight (filament s) \<noteq> None
                   \<and> is_positive (the (filament_weight (filament s)))
                then Some (fmul wt (fdiv (the (filament_price (filament s)))
                                         (the (filament_weight (filament s)))))
                else None)
             else c)"
  by (simp add: truediv_positive)

lemma create_found:
  assumes s: "spools (db w) sid = Some s"
    and st: "map_option (utc_timezone_naive (local_utcoffset env)) st = map_option Inr started"
    and ct: "map_option (utc_timezone_naive (local_utcoffset env)) ct = map_option Inr completed"
    and j: "j = \<lparr>id' = new_id (db w),
             registered = replace_microsecond_0 (utcnow now),
             spool_id = Some sid, name = Some nm, weight_used = Some wt,
             started_at = started, completed_at = completed,
             cost = (if c = None \<and> is_positive wt then
               (if price s \<noteq> None \<and> initial_weight s \<noteq> None
                   \<and> is_positive (the (initial_weight s))
                then Some (fmul wt (fdiv (the (price s)) (the (initial_weight s))))
                else if filament_price (filament s) \<noteq> None
                   \<and> filament_weight (filament s) \<noteq> None
                   \<and> is_positive (the (filament_weight (filament s)))
                then Some (fmul wt (fdiv (the (filament_price (filament s)))
                                         (the (filament_weight (filament s)))))
                else None)
             else c),
             revenue = rv, notes' = nt, external_reference = xr\<rparr>"
  shows "create env sid nm wt st ct c rv nt xr now now' w =
     (Inr j, snd (print_job_changed env j ADDED now'
        (w\<lparr>db := db_add j (db w), effects := effects w @ [Committed (db_add j (db w))]\<rparr>)))"
proof -
  have st': "(case st of None \<Rightarrow> Inr None
       | Some dt \<Rightarrow> (case utc_timezone_naive (local_utcoffset env) dt of
                         Inl e \<Rightarrow> Inl e
                       | Inr u \<Rightarrow> Inr (Some u))) = Inr started"
    using st by (cases st; cases started) auto
  have ct': "(case ct of None \<Rightarrow> Inr None
       | Some dt \<Rightarrow> (case utc_timezone_naive (local_utcoffset env) dt of
                         Inl e \<Rightarrow> Inl e
                       | Inr u \<Rightarrow> Inr (Some u))) = Inr completed"
    using ct by (cases ct; cases completed) auto
  have ok: "constraints_ok (foreign_keys env) (db_add j (db w)) j"
    by (simp add: constraints_ok_def j s)
  have cm: "commit env (Some j) (db_add j (db w)) w =
      Inr (w\<lparr>db := db_add j (db w), effects := effects w @ [Committed (db_add j (db w))]\<rparr>)"
    using ok by (simp add: commit_def)
  show ?thesis
    unfolding create_def spool_get_by_id_def s st' ct'
    apply (simp only: sum.case option.case)
    apply (simp only: derived_cost sum.case)
    apply (simp only: Let_def)
    apply (simp only: j [symmetric])
    apply (simp only: cm sum.case after_print_job_changed)
    done
qed

lemma create_started_fails:
  assumes "spools (db w) sid = Some s"
    and "st = Some dt"
    and "utc_timezone_naive (local_utcoffset env) dt = Inl e"
  shows "create env sid nm wt st ct c rv nt xr now now' w = (Inl e, w)"
  using assms by (simp add: create_def spool_get_by_id_def)

lemma create_completed_fails:
  assumes "spools (db w) sid = Some s"
    and st: "map_option (utc_timezone_naive (local_utcoffset env)) st = map_option Inr started"
    and "ct = Some dt"
    and "utc_timezone_naive (local_utcoffset env) dt = Inl e"
  shows "create env sid nm wt st ct c rv nt xr now now' w = (Inl e, w)"
proof -
  have st': "(case st of None \<Rightarrow> Inr None
       | Some dt \<Rightarrow> (case utc_timezone_naive (local_utcoffset env) dt of
                         Inl e \<Rightarrow> Inl e
                       | Inr u \<Rightarrow> Inr (Some u))) = Inr started"
    using st by (cases st; cases started) auto
  from assms(1,3,4) show ?thesis
    by (simp add: create_def spool_get_by_id_def st')
qed

lemma create_conversion_fails:
  assumes "spools (db w) sid = Some s"
    and "(\<exists>dt e. st = Some dt \<and> utc_timezone_naive (local_utcoffset env) dt = Inl e) \<or>
         (\<exists>dt e. ct = Some dt \<and> utc_timezone_naive (local_utcoffset env) dt = Inl e)"
  shows "\<exists>e. create env sid nm wt st ct c rv nt xr now now' w = (Inl e, w)
     \<and> (e = OverflowError \<or> e = ValueError)"
proof (cases "\<exists>dt e. st = Some dt \<and> utc_timezone_naive (local_utcoffset env) dt = Inl e")
  case True
  then obtain dt e where h: "st = Some dt" "utc_timezone_naive (local_utcoffset env) dt = Inl e"
    by blast
  from create_started_fails [OF assms(1) h] utc_timezone_naive_error [OF h(2)]
  show ?thesis by blast
next
  case False
  with assms(2) obtain dt e where h: "ct = Some dt"
    "utc_timezone_naive (local_utcoffset env) dt = Inl e"
    by blast
  from False convert_cases [of st "local_utcoffset env"] obtain started
    where st: "map_option (utc_timezone_naive (local_utcoffset env)) st = map_option Inr started"
    by blast
  from create_completed_fails [OF assms(1) st h] utc_timezone_naive_error [OF h(2)]
  show ?thesis by blast
qed

lemma create_Inr:
  assumes ok: "create env sid nm wt st ct c rv nt xr now now' w = (Inr j, w')"
  shows "\<exists>s. spools (db w) sid = Some s \<and>
     id' j = new_id (db w) \<and>
     registered j = replace_microsecond_0 (utcnow now) \<and>
     spool_id j = Some sid \<and> name j = Some nm \<and> weight_used j = Some wt \<and>
     map_option (utc_timezone_naive (local_utcoffset env)) st = map_option Inr (started_at j) \<and>
     map_option (utc_timezone_naive (local_utcoffset env)) ct = map_option Inr (completed_at j) \<and>
     cost j = (if c = None \<and> is_positive wt then
               (if price s \<noteq> None \<and> initial_weight s \<noteq> None
                   \<and> is_positive (the (initial_weight s))
                then Some (fmul wt (fdiv (the (price s)) (the (initial_weight s))))
                else if filament_price (filament s) \<noteq> None
                   \<and> filament_weight (filament s) \<noteq> None
                   \<and> is_positive (the (filament_weight (filament s)))
                then Some (fmul wt (fdiv (the (filament_price (filament s)))
                                         (the (filament_weight (filament s)))))
                else None)
             else c) \<and>
     revenue j = rv \<and> notes' j = nt \<and> external_reference j = xr \<and>
     w' = snd (print_job_changed env j ADDED now'
            (w\<lparr>db := db_add j (db w), effects := effects w @ [Committed (db_add j (db w))]\<rparr>))"
proof (cases "spools (db w) sid")
  case None
  with ok show ?thesis by (simp add: create_def spool_get_by_id_def)
next
  case (Some s)
  from create_conversion_fails [OF Some] ok
  have no: "\<not> ((\<exists>dt e. st = Some dt \<and> utc_timezone_naive (local_utcoffset env) dt = Inl e) \<or>
         (\<exists>dt e. ct = Some dt \<and> utc_timezone_naive (local_utcoffset env) dt = Inl e))"
    by (metis Inl_Inr_False fst_conv)
  with convert_cases [of st "local_utcoffset env"] obtain started
    where st: "map_option (utc_timezone_naive (local_utcoffset env)) st = map_option Inr started"
    by blast
  from no convert_cases [of ct "local_utcoffset env"] obtain completed
    where ct: "map_option (utc_timezone_naive (local_utcoffset env)) ct = map_option Inr completed"
    by blast
  from create_found [OF Some st ct refl, where nm = nm and wt = wt and c = c and now = now and rv = rv and nt = nt and xr = xr and now' = now'] ok
  have j: "j = \<lparr>id' = new_id (db w),
             registered = replace_microsecond_0 (utcnow now),
             spool_id = Some sid, name = Some nm, weight_used = Some wt,
             started_at = started, completed_at = completed,
             cost = (if c = None \<and> is_positive wt then
               (if price s \<noteq> None \<and> initial_weight s \<noteq> None
                   \<and> is_positive (the (initial_weight s))
                then Some (fmul wt (fdiv (the (price s)) (the (initial_weight s))))
                else if filament_price (filament s) \<noteq> None
                   \<and> filament_weight (filament s) \<noteq> None
                   \<and> is_positive (the (filament_weight (filament s)))
                then Some (fmul wt (fdiv (the (filament_price (filament s)))
                                         (the (filament_weight (filament s)))))
                else None)
             else c),
             revenue = rv, notes' = nt, external_reference = xr\<rparr>"
    and w': "w' = snd (print_job_changed env j ADDED now'
            (w\<lparr>db := db_add j (db w), effects := effects w @ [Committed (db_add j (db w))]\<rparr>))"
    by simp_all
  have "cost j = (if c = None \<and> is_positive wt then
               (if price s \<noteq> None \<and> initial_weight s \<noteq> None
                   \<and> is_positive (the (initial_weight s))
                then Some (fmul wt (fdiv (the (price s)) (the (initial_weight s))))
                else if filament_price (filament s) \<noteq> None
                   \<and> filament_weight (filament s) \<noteq> None
                   \<and> is_positive (the (filament_weight (filament s)))
                then Some (fmul wt (fdiv (the (filament_price (filament s)))
                                         (the (filament_weight (filament s)))))
                else None)
             else c)"
    by (subst j) simp
  moreover have "id' j = new_id (db w)" "registered j = replace_microsecond_0 (utcnow now)"
    "spool_id j = Some sid" "name j = Some nm" "weight_used j = Some wt"
    "started_at j = started" "completed_at j = completed"
    "revenue j = rv" "notes' j = nt" "external_reference j = xr"
    by (simp_all add: j)
  ultimately show ?thesis using Some st ct w' by simp
qed


lemma create_effects:
  assumes "create env sid nm wt st ct c rv nt xr now now' w = (Inr j, w')"
  shows "db w' = db_add j (db w) \<and> ws w' = snd (send env [''print_job'', str (id' j)]
           \<lparr>type' = ADDED, resource = ''print_job'', date = utcnow now', payload = j\<rparr> (ws w))
     \<and> effects w' = effects w @
         [Committed (db_add j (db w)),
          Sent [''print_job'', str (id' j)]
            \<lparr>type' = ADDED, resource = ''print_job'', date = utcnow now', payload = j\<rparr>]"
  using create_Inr [OF assms] by (auto simp: print_job_changed_eq)

lemma create_send:
  "fst (create (env\<lparr>send := s\<rparr>) sid nm wt st ct c rv nt xr now now' w)
     = fst (create env sid nm wt st ct c rv nt xr now now' w)
   \<and> db (snd (create (env\<lparr>send := s\<rparr>) sid nm wt st ct c rv nt xr now now' w))
     = db (snd (create env sid nm wt st ct c rv nt xr now now' w))"
proof (cases "spools (db w) sid")
  case None
  then show ?thesis by (simp add: create_def spool_get_by_id_def)
next
  case (Some sp)
  have l: "local_utcoffset (env\<lparr>send := s\<rparr>) = local_utcoffset env" by simp
  show ?thesis
  proof (cases "\<exists>dt e. st = Some dt \<and> utc_timezone_naive (local_utcoffset env) dt = Inl e")
    case True
    then obtain dt e where h: "st = Some dt" "utc_timezone_naive (local_utcoffset env) dt = Inl e"
      by blast
    from create_started_fails [OF Some h]
      create_started_fails [where env = "env\<lparr>send := s\<rparr>", OF Some h(1) h(2) [folded l]]
    show ?thesis by simp
  next
    case False
    with convert_cases [of st "local_utcoffset env"] obtain started
      where st: "map_option (utc_timezone_naive (local_utcoffset env)) st = map_option Inr started"
      by blast
    show ?thesis
    proof (cases "\<exists>dt e. ct = Some dt \<and> utc_timezone_naive (local_utcoffset env) dt = Inl e")
      case True
      then obtain dt e where h: "ct = Some dt"
        "utc_timezone_naive (local_utcoffset env) dt = Inl e"
        by blast
      from create_completed_fails [OF Some st h]
        create_completed_fails [where env = "env\<lparr>send := s\<rparr>",
          OF Some st [folded l] h(1) h(2) [folded l]]
      show ?thesis by simp
    next
      case False
      with convert_cases [of ct "local_utcoffset env"] obtain completed
        where ct: "map_option (utc_timezone_naive (local_utcoffset env)) ct
            = map_option Inr completed"
        by blast
      note a = create_found [where env = "env\<lparr>send := s\<rparr>",
          OF Some st [folded l] ct [folded l] refl,
          where nm = nm and wt = wt and c = c and now = now and rv = rv and nt = nt and xr = xr
            and now' = now']
      note b = create_found [OF Some st ct refl, where nm = nm and wt = wt
          and c = c and now = now and rv = rv and nt = nt and xr = xr and now' = now']
      show ?thesis by (simp add: a b)
    qed
  qed
qed

subsection \<open>The loop of \<^verbatim>\<open>update\<close>\<close>

lemma id_setattr [simp]: "id' (setattr j a) = id' j"
  by (cases a) simp_all

lemma registered_setattr [simp]: "registered (setattr j a) = registered j"
  by (cases a) simp_all

lemma getattr_setattr_same: "getattr (setattr j a) (key a) = Some a"
  by (cases a) (simp_all add: getattr_def)

lemma getattr_setattr_other: "key a \<noteq> k \<Longrightarrow> getattr (setattr j a) k = getattr j k"
  by (cases a) (auto simp: getattr_def)

lemma getattr_keys:
  "getattr j ''spool_id'' = Some (Spool_id (spool_id j))"
  "getattr j ''name'' = Some (Name (name j))"
  "getattr j ''weight_used'' = Some (Weight_used (weight_used j))"
  "getattr j ''started_at'' = Some (Started_at (started_at j))"
  "getattr j ''completed_at'' = Some (Completed_at (completed_at j))"
  "getattr j ''cost'' = Some (Cost (cost j))"
  "getattr j ''revenue'' = Some (Revenue (revenue j))"
  "getattr j ''notes'' = Some (Notes (notes' j))"
  "getattr j ''external_reference'' = Some (External_reference (external_reference j))"
  by (simp_all add: getattr_def)

lemma key_convert: "convert local a = Inr b \<Longrightarrow> key b = key a"
  by (induction local a rule: convert.induct) (auto split: sum.splits)

lemma convert_datetime:
  "convert local (Started_at v) = Inr b \<Longrightarrow>
     \<exists>u. b = Started_at u \<and> map_option (utc_timezone_naive local) v = map_option Inr u"
  "convert local (Completed_at v) = Inr b \<Longrightarrow>
     \<exists>u. b = Completed_at u \<and> map_option (utc_timezone_naive local) v = map_option Inr u"
  by (cases v; auto split: sum.splits)+

lemma assign_convert:
  "assign local j a = (case convert local a of Inl e \<Rightarrow> Inl e | Inr b \<Rightarrow> Inr (setattr j b))"
  by (induction local a rule: convert.induct) (auto split: sum.splits)

lemma assign_all_frame:
  "assign_all local j data = Inr j1 \<Longrightarrow>
   id' j1 = id' j \<and> registered j1 = registered j \<and>
   (\<forall>k. k \<notin> key ` set data \<longrightarrow> getattr j1 k = getattr j k)"
proof (induction data arbitrary: j)
  case Nil
  then show ?case by simp
next
  case (Cons a data)
  from Cons.prems obtain b where b: "convert local a = Inr b"
    and rest: "assign_all local (setattr j b) data = Inr j1"
    by (auto simp: assign_convert split: sum.splits)
  from Cons.IH [OF rest] key_convert [OF b] show ?case
    by (auto simp: getattr_setattr_other)
qed

lemma assign_all_holds:
  "assign_all local j data = Inr j1 \<Longrightarrow> distinct (map key data) \<Longrightarrow> a \<in> set data \<Longrightarrow>
   \<exists>b. convert local a = Inr b \<and> getattr j1 (key a) = Some b"
proof (induction data arbitrary: j)
  case Nil
  then show ?case by simp
next
  case (Cons x data)
  from Cons.prems(1) obtain b where b: "convert local x = Inr b"
    and rest: "assign_all local (setattr j b) data = Inr j1"
    by (auto simp: assign_convert split: sum.splits)
  show ?case
  proof (cases "a = x")
    case True
    from Cons.prems(2) have "key x \<notin> key ` set data" by simp
    with assign_all_frame [OF rest] have "getattr j1 (key x) = getattr (setattr j b) (key x)"
      by blast
    with key_convert [OF b] getattr_setattr_same [of j b] have "getattr j1 (key x) = Some b"
      by simp
    with b True show ?thesis by blast
  next
    case False
    with Cons.prems have "a \<in> set data" "distinct (map key data)" by simp_all
    from Cons.IH [OF rest this(2) this(1)] show ?thesis .
  qed
qed

lemma convert_error: "convert local a = Inl e \<Longrightarrow> e = OverflowError \<or> e = ValueError"
  by (induction local a rule: convert.induct)
     (auto split: sum.splits dest: utc_timezone_naive_error)

lemma assign_all_error:
  "assign_all local j data = Inl e \<Longrightarrow> e = OverflowError \<or> e = ValueError"
proof (induction data arbitrary: j)
  case Nil
  then show ?case by simp
next
  case (Cons a data)
  show ?case
  proof (cases "convert local a")
    case (Inl x)
    with convert_error [OF Inl] Cons.prems show ?thesis by (simp add: assign_convert)
  next
    case (Inr b)
    with Cons show ?thesis by (simp add: assign_convert)
  qed
qed

subsection \<open>\<^verbatim>\<open>update\<close>\<close>

lemma update_Inr:
  assumes "update env i data now w = (Inr j1, w')"
  shows "\<exists>j. get_by_id (db w) i = Inr j \<and>
     assign_all (local_utcoffset env) j data = Inr j1 \<and>
     constraints_ok (foreign_keys env) (db_merge j1 (db w)) j1 \<and>
     w' = snd (print_job_changed env j1 UPDATED now
            (w\<lparr>db := db_merge j1 (db w), effects := effects w @ [Committed (db_merge j1 (db w))]\<rparr>))"
  using assms
  by (auto simp: update_def commit_def print_job_changed_eq split: sum.splits if_splits)

lemma update_found:
  assumes "get_by_id (db w) i = Inr j"
    and "assign_all (local_utcoffset env) j data = Inr j1"
    and "constraints_ok (foreign_keys env) (db_merge j1 (db w)) j1"
  shows "update env i data now w =
     (Inr j1, snd (print_job_changed env j1 UPDATED now
            (w\<lparr>db := db_merge j1 (db w), effects := effects w @ [Committed (db_merge j1 (db w))]\<rparr>)))"
  using assms
  by (simp add: update_def commit_def print_job_changed_eq)

lemma update_Inl:
  "update env i data now w = (Inl e, w') \<Longrightarrow> w' = w"
  by (auto simp: update_def after_print_job_changed split: sum.splits)

lemma update_db:
  assumes "update env i data now w = (Inr j1, w')"
  shows "db w' = db_merge j1 (db w)"
  using update_Inr [OF assms] by (auto simp: print_job_changed_eq)

lemma update_stored:
  assumes "update env i data now w = (Inr j1, w')"
  shows "get_by_id (db w') i = Inr j1 \<and> (\<forall>k. k \<noteq> i \<longrightarrow> get_by_id (db w') k = get_by_id (db w) k)"
proof -
  from update_Inr [OF assms] obtain j where j: "get_by_id (db w) i = Inr j"
    and a: "assign_all (local_utcoffset env) j data = Inr j1" by blast
  from assign_all_frame [OF a] get_by_id_key [OF j] have i: "id' j1 = i" by simp
  from get_by_id_db_merge [OF j i] get_by_id_db_merge_other [of _ j1 "db w"] i
    update_db [OF assms]
  show ?thesis by simp
qed

lemma update_effects:
  assumes "update env i data now w = (Inr j1, w')"
  shows "db w' = db_merge j1 (db w) \<and> id' j1 = i \<and> ws w' = snd (send env [''print_job'', str i]
           \<lparr>type' = UPDATED, resource = ''print_job'', date = utcnow now, payload = j1\<rparr> (ws w))
     \<and> effects w' = effects w @
         [Committed (db_merge j1 (db w)),
          Sent [''print_job'', str i]
            \<lparr>type' = UPDATED, resource = ''print_job'', date = utcnow now, payload = j1\<rparr>]"
proof -
  from update_Inr [OF assms] obtain j where j: "get_by_id (db w) i = Inr j"
    and a: "assign_all (local_utcoffset env) j data = Inr j1"
    and w': "w' = snd (print_job_changed env j1 UPDATED now
            (w\<lparr>db := db_merge j1 (db w), effects := effects w @ [Committed (db_merge j1 (db w))]\<rparr>))"
    by blast
  from assign_all_frame [OF a] get_by_id_key [OF j] have i: "id' j1 = i" by simp
  with w' show ?thesis by (simp add: print_job_changed_eq)
qed

lemma update_send:
  "fst (update (env\<lparr>send := s\<rparr>) i data now w) = fst (update env i data now w)
   \<and> db (snd (update (env\<lparr>send := s\<rparr>) i data now w)) = db (snd (update env i data now w))"
  by (auto simp: update_def after_print_job_changed
      split: sum.splits option.splits split del: if_split dest: commit_Inr)

subsection \<open>\<^verbatim>\<open>delete\<close>\<close>

lemma delete_found:
  assumes "get_by_id (db w) i = Inr j"
  shows "fst (delete env i now w) = Inr ()
     \<and> db (snd (delete env i now w)) = db_delete j (db w)
     \<and> ws (snd (delete env i now w)) = snd (send env [''print_job'', str i]
           \<lparr>type' = DELETED, resource = ''print_job'', date = utcnow now, payload = j\<rparr> (ws w))
     \<and> effects (snd (delete env i now w)) = effects w @
         [Sent [''print_job'', str i]
            \<lparr>type' = DELETED, resource = ''print_job'', date = utcnow now, payload = j\<rparr>,
          Committed (db_delete j (db w))]"
  using assms get_by_id_key [OF assms]
  by (simp add: delete_def print_job_changed_eq commit_def)

lemma delete_send:
  "fst (delete (env\<lparr>send := s\<rparr>) i now w) = fst (delete env i now w)
   \<and> db (snd (delete (env\<lparr>send := s\<rparr>) i now w)) = db (snd (delete env i now w))"
  by (auto simp: delete_def print_job_changed_eq commit_def
      split: sum.splits option.splits)

section \<open>Properties of the update endpoint\<close>

subsection \<open>The dump of a request body\<close>

lemma mem_dump_field: "a \<in> set (dump_field mk f) \<longleftrightarrow> (\<exists>v. f = Given v \<and> a = mk v)"
  by (cases f) (auto simp: dump_field_def)

lemma keys_dump_field:
  "k \<in> key ` set (dump_field mk f) \<longleftrightarrow> (\<exists>v. f = Given v \<and> k = key (mk v))"
  by (cases f) (auto simp: dump_field_def)

lemma distinct_dump_field: "distinct (map key (dump_field mk f))"
  by (cases f) (simp_all add: dump_field_def)

lemma disjoint_dump_field:
  "(\<And>u v. key (mk u) \<noteq> key (mk' v)) \<Longrightarrow>
   key ` set (dump_field mk f) \<inter> key ` set (dump_field mk' g) = {}"
  by (cases f; cases g) (auto simp: dump_field_def)

lemma distinct_model_dump: "distinct (map key (model_dump_exclude_unset body))"
  unfolding model_dump_exclude_unset_def
  by (simp add: distinct_dump_field disjoint_dump_field Int_Un_distrib image_Un)

lemma mem_model_dump:
  "a \<in> set (model_dump_exclude_unset body) \<longleftrightarrow>
     (\<exists>v. body_spool_id body = Given v \<and> a = Spool_id v) \<or>
     (\<exists>v. body_name body = Given v \<and> a = Name v) \<or>
     (\<exists>v. body_weight_used body = Given v \<and> a = Weight_used v) \<or>
     (\<exists>v. body_started_at body = Given v \<and> a = Started_at v) \<or>
     (\<exists>v. body_completed_at body = Given v \<and> a = Completed_at v) \<or>
     (\<exists>v. body_cost body = Given v \<and> a = Cost v) \<or>
     (\<exists>v. body_revenue body = Given v \<and> a = Revenue v) \<or>
     (\<exists>v. body_notes body = Given v \<and> a = Notes v) \<or>
     (\<exists>v. body_external_reference body = Given v \<and> a = External_reference v)"
  unfolding model_dump_exclude_unset_def
  by (simp add: mem_dump_field)

lemma keys_model_dump:
  "k \<in> key ` set (model_dump_exclude_unset body) \<longleftrightarrow>
     (body_spool_id body \<noteq> Unset \<and> k = ''spool_id'') \<or>
     (body_name body \<noteq> Unset \<and> k = ''name'') \<or>
     (body_weight_used body \<noteq> Unset \<and> k = ''weight_used'') \<or>
     (body_started_at body \<noteq> Unset \<and> k = ''started_at'') \<or>
     (body_completed_at body \<noteq> Unset \<and> k = ''completed_at'') \<or>
     (body_cost body \<noteq> Unset \<and> k = ''cost'') \<or>
     (body_revenue body \<noteq> Unset \<and> k = ''revenue'') \<or>
     (body_notes body \<noteq> Unset \<and> k = ''notes'') \<or>
     (body_external_reference body \<noteq> Unset \<and> k = ''external_reference'')"
proof -
  have g: "\<And>f::'a field. (\<exists>v. f = Given v) \<longleftrightarrow> f \<noteq> Unset"
    by (metis field.exhaust field.distinct(1))
  show ?thesis
    unfolding model_dump_exclude_unset_def
    by (simp add: image_Un keys_dump_field g)
qed

subsection \<open>The endpoint\<close>

lemma api_update_Inr:
  "api_update env i body now w = (Inr j1, w') \<Longrightarrow>
   update env i (model_dump_exclude_unset body) now w = (Inr j1, w')"
  by (auto simp: api_update_def Let_def split: prod.splits sum.splits)

lemma api_update_Inl:
  "api_update env i body now w = (Inl e, w') \<Longrightarrow> w' = w"
  by (auto simp: api_update_def Let_def split: prod.splits sum.splits dest: update_Inl)

section \<open>Properties of the notifier\<close>

lemma inbox_publish:
  "inbox (publish tp evt m) c =
     inbox m c @ (if subscribed m tp c \<and> c \<notin> set (broken m) then [evt] else [])"
  by (simp add: publish_def)

section \<open>The example store, evaluated\<close>

lemma str_5: "str 5 = ''5''"
  by code_simp

lemma str_7: "str 7 = ''7''"
  by code_simp

lemma example_send: "send example_env = notifier_send"
  by (simp add: example_env_def)

lemma example_get_5: "get_by_id (db example_world) 5 = Inr (example_job 5 1000000)"
  by (simp add: get_by_id_def example_world_def example_db_def example_job_def)

lemma example_get_7: "get_by_id (db example_world) 7 = Inr (example_job 7 3000000)"
  by (simp add: get_by_id_def example_world_def example_db_def example_job_def)

lemma example_subscribed:
  "subscribed (ws example_world) tp c \<longleftrightarrow>
     (tp = [''print_job'', ''5''] \<and> c = 0) \<or> (tp = [''print_job''] \<and> c = 1) \<or>
     (tp = [''print_job'', ''7''] \<and> c = 2)"
  by (auto simp: subscribed_def example_world_def example_ws_def)

lemma example_inbox: "inbox (ws example_world) c = []" "broken (ws example_world) = []"
  by (simp_all add: example_world_def example_ws_def)

lemma example_update:
  "update example_env 5 (model_dump_exclude_unset example_body) 0 example_world =
     (Inr example_updated,
      snd (update example_env 5 (model_dump_exclude_unset example_body) 0 example_world))"
proof -
  have "fst (update example_env 5 (model_dump_exclude_unset example_body) 0 example_world)
      = Inr example_updated"
    by code_simp
  then show ?thesis by (simp add: prod_eq_iff)
qed

lemma example_update_7:
  "update example_env 7 [Name (Some ''Vase'')] 0 example_world =
     (Inr ((example_job 7 3000000)\<lparr>name := Some ''Vase''\<rparr>),
      snd (update example_env 7 [Name (Some ''Vase'')] 0 example_world))"
proof -
  have "fst (update example_env 7 [Name (Some ''Vase'')] 0 example_world)
      = Inr ((example_job 7 3000000)\<lparr>name := Some ''Vase''\<rparr>)"
    by code_simp
  then show ?thesis by (simp add: prod_eq_iff)
qed

lemma example_api_update:
  "api_update example_env 5 example_body 0 example_world =
     (Inr example_updated, snd (api_update example_env 5 example_body 0 example_world))"
proof -
  have "fst (api_update example_env 5 example_body 0 example_world) = Inr example_updated"
    by code_simp
  then show ?thesis by (simp add: prod_eq_iff)
qed

lemma example_create_aware:
  "create example_env 1 ''Benchy'' (float_literal 15.5) (Some \<lparr>wall = 7200000000, tzinfo = Some 3600000000\<rparr>)
     None None None None None 0 0 example_world =
   (Inr ((example_job 8 0)\<lparr>started_at := Some \<lparr>wall = 3600000000, tzinfo = None\<rparr>\<rparr>),
    snd (create example_env 1 ''Benchy'' (float_literal 15.5)
      (Some \<lparr>wall = 7200000000, tzinfo = Some 3600000000\<rparr>)
      None None None None None 0 0 example_world))"
proof -
  have "fst (create example_env 1 ''Benchy'' (float_literal 15.5)
      (Some \<lparr>wall = 7200000000, tzinfo = Some 3600000000\<rparr>)
      None None None None None 0 0 example_world)
    = Inr ((example_job 8 0)\<lparr>started_at := Some \<lparr>wall = 3600000000, tzinfo = None\<rparr>\<rparr>)"
    by code_simp
  then show ?thesis by (simp add: prod_eq_iff)
qed

lemma example_delete_5:
  "delete example_env 5 0 example_world = (Inr (), snd (delete example_env 5 0 example_world))"
  using delete_found [OF example_get_5, of example_env 0] by (simp add: prod_eq_iff)

lemma example_find_all:
  "find' example_env example_db None None None 0 =
     ([example_job 7 3000000, example_job 5 1000000], 2)"
  by code_simp

lemma example_find_page:
  "find' example_env example_db None None (Some 1) 0 = ([example_job 7 3000000], 2)"
  by code_simp

lemma example_find_negative:
  "find' example_env example_db None None (Some (- 1)) 0 =
     ([example_job 7 3000000, example_job 5 1000000], 2)"
  by code_simp



lemma example_literal: "float_literal 3.1 = Finite False (6980579422424269 / 2251799813685248)"
  by code_simp

lemma example_rounding:
  "fmul (float_literal 3) (fdiv (float_literal 1) (float_literal 10))
     = Finite False (1351079888211149 / 4503599627370496)"
  "fdiv (fmul (float_literal 3) (float_literal 1)) (float_literal 10) = float_literal 0.3"
  "float_literal 0.3 = Finite False (5404319552844595 / 18014398509481984)"
  by code_simp+

text \<open>
  Naive values in the local zone of the example, UTC: one on the first day of year 1
  has no conversion, because the search reads the local clock a day earlier; one on
  the second day is converted to itself.
\<close>

lemma example_naive:
  "utc_timezone_naive (local_utcoffset example_env) \<lparr>wall = 0, tzinfo = None\<rparr> = Inl ValueError"
  "utc_timezone_naive (local_utcoffset example_env) \<lparr>wall = 86399999999, tzinfo = None\<rparr>
     = Inl ValueError"
  "utc_timezone_naive (local_utcoffset example_env) \<lparr>wall = 86400000000, tzinfo = None\<rparr>
     = Inr \<lparr>wall = 86400000000, tzinfo = None\<rparr>"
  "utc_timezone_naive (local_utcoffset example_env) \<lparr>wall = 315537897599999999, tzinfo = None\<rparr>
     = Inr \<lparr>wall = 315537897599999999, tzinfo = None\<rparr>"
  by code_simp+

text \<open>In a zone one hour east of UTC the last hour of year 9999 has no conversion either.\<close>

lemma example_naive_east:
  "utc_timezone_naive (\<lambda>t. 3600) \<lparr>wall = 315537897599999999, tzinfo = None\<rparr> = Inl ValueError"
  "utc_timezone_naive (\<lambda>t. 3600) \<lparr>wall = 315537893999999999, tzinfo = None\<rparr>
     = Inr \<lparr>wall = 315537890399999999, tzinfo = None\<rparr>"
  "utc_timezone_naive (\<lambda>t. - 18000) \<lparr>wall = 315537897599999999, tzinfo = None\<rparr>
     = Inl OverflowError"
  by code_simp+



section \<open>The claims\<close>

subsection \<open>C1: the derived cost\<close>



subsection \<open>C2: a missing spool\<close>

text \<open>
  C2. A create request whose \<open>spool_id\<close> references no spool fails with
  \<^verbatim>\<open>ItemNotFoundError\<close>, and the world after the call is the world before it: no row
  is added, nothing is committed, sent or logged.
\<close>

theorem create_missing_spool:
  "spools (db w) spool_id_arg = None \<Longrightarrow>
   \<exists>message.
     create env spool_id_arg name_arg weight_used_arg started_at_arg completed_at_arg cost_arg
       revenue_arg notes_arg external_reference_arg now now' w =
     (Inl (ItemNotFoundError message), w)"
  by (simp add: create_def spool_get_by_id_def)

theorem create_missing_spool_witness:
  "spools (db example_world) 42 = None \<and>
   (\<exists>message.
      create example_env 42 ''Benchy'' (float_literal 15.5) None None None None None None 0 0 example_world =
      (Inl (ItemNotFoundError message), example_world)) \<and>
   print_jobs (db example_world) = [example_job 5 1000000, example_job 7 3000000]"
  using create_missing_spool [of example_world 42 example_env "''Benchy''" "float_literal 15.5" None None None
      None None None 0 0]
  by (simp add: example_world_def example_db_def)

subsection \<open>C3: a partial update\<close>

text \<open>
  C3. When the endpoint \<^verbatim>\<open>update\<close> answers for an existing job, every field that the
  request leaves unset keeps the value it had, and every field that the request gives
  holds the given value (a given \<^verbatim>\<open>started_at\<close> or \<^verbatim>\<open>completed_at\<close> after its
  conversion by \<^verbatim>\<open>utc_timezone_naive\<close>: \<open>None\<close> stays \<open>None\<close>, and \<open>Some dt\<close> is stored as
  the \<open>Some u\<close> that the conversion returns). The key and the registration time
  never change. The returned row is the row stored under the key, and every other row
  of the table is as it was. When the call fails it changes nothing at all.
\<close>

theorem api_update_changes_given_fields:
  assumes old: "get_by_id (db w) print_job_id = Inr j"
  shows "case api_update env print_job_id body now w of
      (Inr j1, w') \<Rightarrow>
        id' j1 = id' j \<and> registered j1 = registered j
          \<and> (case body_spool_id body of Unset \<Rightarrow> spool_id j1 = spool_id j
              | Given v \<Rightarrow> spool_id j1 = v)
          \<and> (case body_name body of Unset \<Rightarrow> name j1 = name j | Given v \<Rightarrow> name j1 = v)
          \<and> (case body_weight_used body of Unset \<Rightarrow> weight_used j1 = weight_used j
              | Given v \<Rightarrow> weight_used j1 = v)
          \<and> (case body_started_at body of Unset \<Rightarrow> started_at j1 = started_at j
              | Given v \<Rightarrow> map_option (utc_timezone_naive (local_utcoffset env)) v
                           = map_option Inr (started_at j1))
          \<and> (case body_completed_at body of Unset \<Rightarrow> completed_at j1 = completed_at j
              | Given v \<Rightarrow> map_option (utc_timezone_naive (local_utcoffset env)) v
                           = map_option Inr (completed_at j1))
          \<and> (case body_cost body of Unset \<Rightarrow> cost j1 = cost j | Given v \<Rightarrow> cost j1 = v)
          \<and> (case body_revenue body of Unset \<Rightarrow> revenue j1 = revenue j
              | Given v \<Rightarrow> revenue j1 = v)
          \<and> (case body_notes body of Unset \<Rightarrow> notes' j1 = notes' j | Given v \<Rightarrow> notes' j1 = v)
          \<and> (case body_external_reference body of
                Unset \<Rightarrow> external_reference j1 = external_reference j
              | Given v \<Rightarrow> external_reference j1 = v)
          \<and> get_by_id (db w') print_job_id = Inr j1
          \<and> (\<forall>k. k \<noteq> print_job_id \<longrightarrow> get_by_id (db w') k = get_by_id (db w) k)
    | (Inl e, w') \<Rightarrow> w' = w"
proof (cases "api_update env print_job_id body now w")
  case (Pair r w')
  show ?thesis
  proof (cases r)
    case (Inl e)
    with Pair api_update_Inl [of env print_job_id body now w e w'] show ?thesis by simp
  next
    case (Inr j1)
    with Pair have upd: "api_update env print_job_id body now w = (Inr j1, w')" by simp
    let ?data = "model_dump_exclude_unset body"
    let ?local = "local_utcoffset env"
    from api_update_Inr [OF upd] have u: "update env print_job_id ?data now w = (Inr j1, w')" .
    from update_Inr [OF u] old have a: "assign_all ?local j ?data = Inr j1" by auto
    note frame = assign_all_frame [OF a]
    have keep: "\<And>k. k \<notin> key ` set ?data \<Longrightarrow> getattr j1 k = getattr j k"
      using frame by blast
    have hold: "\<And>x. x \<in> set ?data \<Longrightarrow> \<exists>b. convert ?local x = Inr b \<and> getattr j1 (key x) = Some b"
      using assign_all_holds [OF a distinct_model_dump] by blast
    have f1: "case body_spool_id body of Unset \<Rightarrow> spool_id j1 = spool_id j | Given v \<Rightarrow> spool_id j1 = v"
    proof (cases "body_spool_id body")
      case Unset
      with keep [of "''spool_id''"] show ?thesis by (simp add: keys_model_dump getattr_keys)
    next
      case (Given v)
      with hold [of "Spool_id v"] show ?thesis by (simp add: mem_model_dump getattr_keys)
    qed
    have f2: "case body_name body of Unset \<Rightarrow> name j1 = name j | Given v \<Rightarrow> name j1 = v"
    proof (cases "body_name body")
      case Unset
      with keep [of "''name''"] show ?thesis by (simp add: keys_model_dump getattr_keys)
    next
      case (Given v)
      with hold [of "Name v"] show ?thesis by (simp add: mem_model_dump getattr_keys)
    qed
    have f3: "case body_weight_used body of Unset \<Rightarrow> weight_used j1 = weight_used j
           | Given v \<Rightarrow> weight_used j1 = v"
    proof (cases "body_weight_used body")
      case Unset
      with keep [of "''weight_used''"] show ?thesis by (simp add: keys_model_dump getattr_keys)
    next
      case (Given v)
      with hold [of "Weight_used v"] show ?thesis by (simp add: mem_model_dump getattr_keys)
    qed
    have f4: "case body_started_at body of Unset \<Rightarrow> started_at j1 = started_at j
           | Given v \<Rightarrow> map_option (utc_timezone_naive ?local) v = map_option Inr (started_at j1)"
    proof (cases "body_started_at body")
      case Unset
      with keep [of "''started_at''"] show ?thesis by (simp add: keys_model_dump getattr_keys)
    next
      case (Given v)
      then have "Started_at v \<in> set ?data" by (simp add: mem_model_dump)
      from hold [OF this] obtain b where "convert ?local (Started_at v) = Inr b"
        and "getattr j1 ''started_at'' = Some b" by auto
      with convert_datetime(1) [of ?local v b] Given show ?thesis
        by (auto simp: getattr_keys)
    qed
    have f5: "case body_completed_at body of Unset \<Rightarrow> completed_at j1 = completed_at j
           | Given v \<Rightarrow> map_option (utc_timezone_naive ?local) v = map_option Inr (completed_at j1)"
    proof (cases "body_completed_at body")
      case Unset
      with keep [of "''completed_at''"] show ?thesis by (simp add: keys_model_dump getattr_keys)
    next
      case (Given v)
      then have "Completed_at v \<in> set ?data" by (simp add: mem_model_dump)
      from hold [OF this] obtain b where "convert ?local (Completed_at v) = Inr b"
        and "getattr j1 ''completed_at'' = Some b" by auto
      with convert_datetime(2) [of ?local v b] Given show ?thesis
        by (auto simp: getattr_keys)
    qed
    have f6: "case body_cost body of Unset \<Rightarrow> cost j1 = cost j | Given v \<Rightarrow> cost j1 = v"
    proof (cases "body_cost body")
      case Unset
      with keep [of "''cost''"] show ?thesis by (simp add: keys_model_dump getattr_keys)
    next
      case (Given v)
      with hold [of "Cost v"] show ?thesis by (simp add: mem_model_dump getattr_keys)
    qed
    have f7: "case body_revenue body of Unset \<Rightarrow> revenue j1 = revenue j | Given v \<Rightarrow> revenue j1 = v"
    proof (cases "body_revenue body")
      case Unset
      with keep [of "''revenue''"] show ?thesis by (simp add: keys_model_dump getattr_keys)
    next
      case (Given v)
      with hold [of "Revenue v"] show ?thesis by (simp add: mem_model_dump getattr_keys)
    qed
    have f8: "case body_notes body of Unset \<Rightarrow> notes' j1 = notes' j | Given v \<Rightarrow> notes' j1 = v"
    proof (cases "body_notes body")
      case Unset
      with keep [of "''notes''"] show ?thesis by (simp add: keys_model_dump getattr_keys)
    next
      case (Given v)
      with hold [of "Notes v"] show ?thesis by (simp add: mem_model_dump getattr_keys)
    qed
    have f9: "case body_external_reference body of
             Unset \<Rightarrow> external_reference j1 = external_reference j
           | Given v \<Rightarrow> external_reference j1 = v"
    proof (cases "body_external_reference body")
      case Unset
      with keep [of "''external_reference''"] show ?thesis
        by (simp add: keys_model_dump getattr_keys)
    next
      case (Given v)
      with hold [of "External_reference v"] show ?thesis
        by (simp add: mem_model_dump getattr_keys)
    qed
    from frame have f0: "id' j1 = id' j" "registered j1 = registered j" by simp_all
    note st = update_stored [OF u]
    from f0 f1 f2 f3 f4 f5 f6 f7 f8 f9 st
    have "id' j1 = id' j \<and> registered j1 = registered j
        \<and> (case body_spool_id body of Unset \<Rightarrow> spool_id j1 = spool_id j
            | Given v \<Rightarrow> spool_id j1 = v)
        \<and> (case body_name body of Unset \<Rightarrow> name j1 = name j | Given v \<Rightarrow> name j1 = v)
        \<and> (case body_weight_used body of Unset \<Rightarrow> weight_used j1 = weight_used j
            | Given v \<Rightarrow> weight_used j1 = v)
        \<and> (case body_started_at body of Unset \<Rightarrow> started_at j1 = started_at j
            | Given v \<Rightarrow> map_option (utc_timezone_naive (local_utcoffset env)) v
                         = map_option Inr (started_at j1))
        \<and> (case body_completed_at body of Unset \<Rightarrow> completed_at j1 = completed_at j
            | Given v \<Rightarrow> map_option (utc_timezone_naive (local_utcoffset env)) v
                         = map_option Inr (completed_at j1))
        \<and> (case body_cost body of Unset \<Rightarrow> cost j1 = cost j | Given v \<Rightarrow> cost j1 = v)
        \<and> (case body_revenue body of Unset \<Rightarrow> revenue j1 = revenue j
            | Given v \<Rightarrow> revenue j1 = v)
        \<and> (case body_notes body of Unset \<Rightarrow> notes' j1 = notes' j | Given v \<Rightarrow> notes' j1 = v)
        \<and> (case body_external_reference body of
              Unset \<Rightarrow> external_reference j1 = external_reference j
            | Given v \<Rightarrow> external_reference j1 = v)
        \<and> get_by_id (db w') print_job_id = Inr j1
        \<and> (\<forall>k. k \<noteq> print_job_id \<longrightarrow> get_by_id (db w') k = get_by_id (db w) k)"
      by blast
    with Pair Inr show ?thesis by simp
  qed
qed

theorem api_update_changes_given_fields_witness:
  "get_by_id (db example_world) 5 = Inr (example_job 5 1000000)
   \<and> fst (api_update example_env 5 example_body 0 example_world) = Inr example_updated
   \<and> name example_updated = Some ''Boat''
   \<and> weight_used example_updated = Some (float_literal 20)
   \<and> started_at example_updated = Some \<lparr>wall = 3600000000, tzinfo = None\<rparr>
   \<and> spool_id example_updated = spool_id (example_job 5 1000000)
   \<and> cost example_updated = cost (example_job 5 1000000)
   \<and> completed_at example_updated = completed_at (example_job 5 1000000)
   \<and> get_by_id (db (snd (api_update example_env 5 example_body 0 example_world))) 5
       = Inr example_updated
   \<and> get_by_id (db (snd (api_update example_env 5 example_body 0 example_world))) 7
       = Inr (example_job 7 3000000)"
proof -
  have r: "fst (api_update example_env 5 example_body 0 example_world) = Inr example_updated"
    using example_api_update by (metis fst_conv)
  from api_update_changes_given_fields [OF example_get_5, where env = example_env
      and body = example_body and now = 0]
    r example_get_5 example_get_7
  show ?thesis
    by (simp add: case_prod_beta example_body_def example_updated_def)
qed

subsection \<open>C4: the page and the total count\<close>

text \<open>
  C4, for a limit that is not negative. \<^verbatim>\<open>find\<close> without a limit returns a total count equal to the number of
  returned rows. With a limit it returns a total count that is at least the number
  of returned rows, and, when the limit is not negative, at most \<open>limit\<close> rows.
  A negative limit reaches the engine as it is (neither the endpoint nor \<^verbatim>\<open>find\<close>
  checks it), and no list has at most \<open>-1\<close> rows: with the limit \<open>-1\<close> the example
  store returns both of its rows.
\<close>

theorem find_counts:
  "find' env d spool_id_arg name_arg limit offset = (result, total_count) \<Longrightarrow>
   (case limit of
      None \<Rightarrow> total_count = int (length result)
    | Some l \<Rightarrow> int (length result) \<le> total_count \<and> (0 \<le> l \<longrightarrow> int (length result) \<le> l))"
proof (cases limit)
  case None
  assume "find' env d spool_id_arg name_arg limit offset = (result, total_count)"
  with None show ?thesis by (auto simp: find'_def Let_def)
next
  case (Some l)
  assume f: "find' env d spool_id_arg name_arg limit offset = (result, total_count)"
  define ordered where "ordered = sort_key (\<lambda>r. - wall (registered r))
      (case name_arg of None \<Rightarrow>
         (case spool_id_arg of None \<Rightarrow>
            filter (\<lambda>r. case spool_id r of None \<Rightarrow> False | Some s \<Rightarrow> spools d s \<noteq> None)
              (print_jobs d)
          | Some s \<Rightarrow> filter (\<lambda>r. spool_id r = Some s)
              (filter (\<lambda>r. case spool_id r of None \<Rightarrow> False | Some s \<Rightarrow> spools d s \<noteq> None)
                (print_jobs d)))
       | Some n \<Rightarrow> filter (\<lambda>r. case name r of None \<Rightarrow> False
                                  | Some v \<Rightarrow> ilike env v (''%'' @ n @ ''%''))
         (case spool_id_arg of None \<Rightarrow>
            filter (\<lambda>r. case spool_id r of None \<Rightarrow> False | Some s \<Rightarrow> spools d s \<noteq> None)
              (print_jobs d)
          | Some s \<Rightarrow> filter (\<lambda>r. spool_id r = Some s)
              (filter (\<lambda>r. case spool_id r of None \<Rightarrow> False | Some s \<Rightarrow> spools d s \<noteq> None)
                (print_jobs d))))"
  from f Some have r: "result = unique (sql_limit l (sql_offset offset ordered))"
    and t: "total_count = int (length ordered)"
    by (simp_all add: find'_def Let_def ordered_def)
  have "length result \<le> length (sql_limit l (sql_offset offset ordered))"
    unfolding r by (rule length_unique)
  moreover have "length (sql_limit l (sql_offset offset ordered)) \<le> length ordered"
    using length_sql_limit [of l "sql_offset offset ordered"] length_sql_offset [of offset ordered]
    by simp
  moreover have "0 \<le> l \<Longrightarrow> int (length (sql_limit l (sql_offset offset ordered))) \<le> l"
    by (rule length_sql_limit_bound)
  ultimately show ?thesis using Some t by auto
qed

theorem find_counts_witness:
  "find' example_env example_db None None (Some 1) 0 = ([example_job 7 3000000], 2)
   \<and> int (length [example_job 7 3000000]) \<le> 2
   \<and> (0::int) \<le> 1
   \<and> int (length [example_job 7 3000000]) \<le> 1
   \<and> find' example_env example_db None None None 0
       = ([example_job 7 3000000, example_job 5 1000000], 2)
   \<and> (2::int) = int (length [example_job 7 3000000, example_job 5 1000000])"
  using find_counts [OF example_find_page] find_counts [OF example_find_all]
    example_find_page example_find_all
  by simp

theorem find_negative_limit_counterexample:
  "find' example_env example_db None None (Some (- 1)) 0 =
     ([example_job 7 3000000, example_job 5 1000000], 2)
   \<and> \<not> int (length (fst (find' example_env example_db None None (Some (- 1)) 0))) \<le> - 1"
  by (simp add: example_find_negative)

subsection \<open>C5: newest first\<close>

text \<open>
  C5. The rows that \<^verbatim>\<open>find\<close> returns are ordered by \<open>registered\<close>, descending: no
  row is followed by a row that was registered later. This holds with and without a
  limit, for every filter and every offset.
\<close>

theorem find_newest_first:
  "sorted_wrt (\<lambda>a b. wall (registered b) \<le> wall (registered a))
     (fst (find' env d spool_id_arg name_arg limit offset))"
  by (cases limit)
     (simp_all add: find'_def Let_def sorted_wrt_unique sorted_wrt_sql_limit
        sorted_wrt_sql_offset newest_first_sort_key)

theorem find_newest_first_witness:
  "fst (find' example_env example_db None None None 0)
     = [example_job 7 3000000, example_job 5 1000000]
   \<and> sorted_wrt (\<lambda>a b. wall (registered b) \<le> wall (registered a))
       [example_job 7 3000000, example_job 5 1000000]
   \<and> wall (registered (example_job 5 1000000)) \<le> wall (registered (example_job 7 3000000))"
  using find_newest_first [of example_env example_db None None None 0]
  by (simp add: example_find_all example_job_def)

subsection \<open>C6: events go to the topic of the job\<close>

text \<open>
  C6. Every mutation calls \<^verbatim>\<open>websocket_manager.send\<close> once, on the topic
  \<^verbatim>\<open>("print_job", str(id))\<close> of the job it concerns (the only \<open>Sent\<close> effect of the
  call). With the notifier of the spec behind \<^verbatim>\<open>send\<close>, the inbox of a connection
  grows by exactly that event when the connection is subscribed to exactly that topic
  and its transport works, and does not change otherwise. Two jobs have the same
  topic only when they are the same job, and no job has the collection topic
  \<^verbatim>\<open>("print_job",)\<close>: a subscriber to \<^verbatim>\<open>("print_job", "5")\<close> gets the events of job 5 and
  no event of job 7.
\<close>

theorem events_reach_only_the_job_topic:
  assumes n: "send env = notifier_send"
  shows "(create env spool_id_arg name_arg weight_used_arg started_at_arg completed_at_arg
            cost_arg revenue_arg notes_arg external_reference_arg now now' w = (Inr j, w') \<longrightarrow>
          effects w' = effects w @
            [Committed (db w'),
             Sent [''print_job'', str (id' j)]
               \<lparr>type' = ADDED, resource = ''print_job'', date = utcnow now', payload = j\<rparr>] \<and>
          (\<forall>c. inbox (ws w') c = inbox (ws w) c @
             (if subscribed (ws w) [''print_job'', str (id' j)] c \<and> c \<notin> set (broken (ws w))
              then [\<lparr>type' = ADDED, resource = ''print_job'', date = utcnow now', payload = j\<rparr>]
              else [])))
     \<and> (update env print_job_id data now w = (Inr j1, w1) \<longrightarrow>
          effects w1 = effects w @
            [Committed (db w1),
             Sent [''print_job'', str print_job_id]
               \<lparr>type' = UPDATED, resource = ''print_job'', date = utcnow now, payload = j1\<rparr>] \<and>
          (\<forall>c. inbox (ws w1) c = inbox (ws w) c @
             (if subscribed (ws w) [''print_job'', str print_job_id] c \<and> c \<notin> set (broken (ws w))
              then [\<lparr>type' = UPDATED, resource = ''print_job'', date = utcnow now, payload = j1\<rparr>]
              else [])))
     \<and> (delete env print_job_id now w = (Inr (), w2) \<and> get_by_id (db w) print_job_id = Inr j0 \<longrightarrow>
          effects w2 = effects w @
            [Sent [''print_job'', str print_job_id]
               \<lparr>type' = DELETED, resource = ''print_job'', date = utcnow now, payload = j0\<rparr>,
             Committed (db w2)] \<and>
          (\<forall>c. inbox (ws w2) c = inbox (ws w) c @
             (if subscribed (ws w) [''print_job'', str print_job_id] c \<and> c \<notin> set (broken (ws w))
              then [\<lparr>type' = DELETED, resource = ''print_job'', date = utcnow now, payload = j0\<rparr>]
              else [])))
     \<and> (\<forall>i k. ([''print_job'', str i] = [''print_job'', str k]) = (i = k))
     \<and> (\<forall>i. [''print_job''] \<noteq> [''print_job'', str i])"
proof (intro conjI impI)
  assume "create env spool_id_arg name_arg weight_used_arg started_at_arg completed_at_arg
            cost_arg revenue_arg notes_arg external_reference_arg now now' w = (Inr j, w')"
  from create_effects [OF this] n
  show "effects w' = effects w @
            [Committed (db w'),
             Sent [''print_job'', str (id' j)]
               \<lparr>type' = ADDED, resource = ''print_job'', date = utcnow now', payload = j\<rparr>]"
    and "\<forall>c. inbox (ws w') c = inbox (ws w) c @
             (if subscribed (ws w) [''print_job'', str (id' j)] c \<and> c \<notin> set (broken (ws w))
              then [\<lparr>type' = ADDED, resource = ''print_job'', date = utcnow now', payload = j\<rparr>]
              else [])"
    by (simp_all add: notifier_send_def inbox_publish)
next
  assume "update env print_job_id data now w = (Inr j1, w1)"
  from update_effects [OF this] n
  show "effects w1 = effects w @
            [Committed (db w1),
             Sent [''print_job'', str print_job_id]
               \<lparr>type' = UPDATED, resource = ''print_job'', date = utcnow now, payload = j1\<rparr>]"
    and "\<forall>c. inbox (ws w1) c = inbox (ws w) c @
             (if subscribed (ws w) [''print_job'', str print_job_id] c \<and> c \<notin> set (broken (ws w))
              then [\<lparr>type' = UPDATED, resource = ''print_job'', date = utcnow now, payload = j1\<rparr>]
              else [])"
    by (simp_all add: notifier_send_def inbox_publish)
next
  assume h: "delete env print_job_id now w = (Inr (), w2) \<and> get_by_id (db w) print_job_id = Inr j0"
  then have w2: "w2 = snd (delete env print_job_id now w)" by simp
  from h delete_found [of w print_job_id j0 env now] n
  show "effects w2 = effects w @
            [Sent [''print_job'', str print_job_id]
               \<lparr>type' = DELETED, resource = ''print_job'', date = utcnow now, payload = j0\<rparr>,
             Committed (db w2)]"
    and "\<forall>c. inbox (ws w2) c = inbox (ws w) c @
             (if subscribed (ws w) [''print_job'', str print_job_id] c \<and> c \<notin> set (broken (ws w))
              then [\<lparr>type' = DELETED, resource = ''print_job'', date = utcnow now, payload = j0\<rparr>]
              else [])"
    unfolding w2 by (simp_all add: notifier_send_def inbox_publish)
next
  show "\<forall>i k. ([''print_job'', str i] = [''print_job'', str k]) = (i = k)"
    by (simp add: str_eq_iff)
  show "\<forall>i. [''print_job''] \<noteq> [''print_job'', str i]" by simp
qed

theorem events_reach_only_the_job_topic_witness:
  "send example_env = notifier_send
   \<and> update example_env 5 (model_dump_exclude_unset example_body) 0 example_world =
       (Inr example_updated,
        snd (update example_env 5 (model_dump_exclude_unset example_body) 0 example_world))
   \<and> inbox (ws (snd (update example_env 5 (model_dump_exclude_unset example_body) 0
        example_world))) 0
       = [\<lparr>type' = UPDATED, resource = ''print_job'', date = utcnow 0, payload = example_updated\<rparr>]
   \<and> inbox (ws (snd (update example_env 5 (model_dump_exclude_unset example_body) 0
        example_world))) 1 = []
   \<and> inbox (ws (snd (update example_env 5 (model_dump_exclude_unset example_body) 0
        example_world))) 2 = []
   \<and> update example_env 7 [Name (Some ''Vase'')] 0 example_world =
       (Inr ((example_job 7 3000000)\<lparr>name := Some ''Vase''\<rparr>),
        snd (update example_env 7 [Name (Some ''Vase'')] 0 example_world))
   \<and> inbox (ws (snd (update example_env 7 [Name (Some ''Vase'')] 0 example_world))) 0 = []
   \<and> delete example_env 5 0 example_world = (Inr (), snd (delete example_env 5 0 example_world))
   \<and> get_by_id (db example_world) 5 = Inr (example_job 5 1000000)
   \<and> inbox (ws (snd (delete example_env 5 0 example_world))) 0
       = [\<lparr>type' = DELETED, resource = ''print_job'', date = utcnow 0,
           payload = example_job 5 1000000\<rparr>]
   \<and> inbox (ws (snd (delete example_env 5 0 example_world))) 1 = []"
proof -
  note t = events_reach_only_the_job_topic [OF example_send]
  note u5 = t [THEN conjunct2, THEN conjunct1, THEN mp, OF example_update, THEN conjunct2,
      rule_format]
  note u7 = t [THEN conjunct2, THEN conjunct1, THEN mp, OF example_update_7, THEN conjunct2,
      rule_format]
  note d5 = t [THEN conjunct2, THEN conjunct2, THEN conjunct1, THEN mp,
      OF conjI [OF example_delete_5 example_get_5], THEN conjunct2, rule_format]
  have a: "inbox (ws (snd (update example_env 5 (model_dump_exclude_unset example_body) 0
        example_world))) 0
       = [\<lparr>type' = UPDATED, resource = ''print_job'', date = utcnow 0, payload = example_updated\<rparr>]"
    using u5 [of 0] by (simp add: example_subscribed example_inbox str_5)
  have b: "inbox (ws (snd (update example_env 5 (model_dump_exclude_unset example_body) 0
        example_world))) 1 = []"
    using u5 [of 1] by (simp add: example_subscribed example_inbox str_5)
  have c: "inbox (ws (snd (update example_env 5 (model_dump_exclude_unset example_body) 0
        example_world))) 2 = []"
    using u5 [of 2] by (simp add: example_subscribed example_inbox str_5)
  have d: "inbox (ws (snd (update example_env 7 [Name (Some ''Vase'')] 0 example_world))) 0 = []"
    using u7 [of 0] by (simp add: example_subscribed example_inbox str_7)
  have e: "inbox (ws (snd (delete example_env 5 0 example_world))) 0
       = [\<lparr>type' = DELETED, resource = ''print_job'', date = utcnow 0,
           payload = example_job 5 1000000\<rparr>]"
    using d5 [of 0] by (simp add: example_subscribed example_inbox str_5)
  have f: "inbox (ws (snd (delete example_env 5 0 example_world))) 1 = []"
    using d5 [of 1] by (simp add: example_subscribed example_inbox str_5)
  show ?thesis
    by (intro conjI example_send example_update a b c example_update_7 d example_delete_5
        example_get_5 e f)
qed

subsection \<open>C7: a failed notification fails nothing\<close>

text \<open>
  C7. \<^verbatim>\<open>print_job_changed\<close> returns normally whatever \<^verbatim>\<open>websocket_manager.send\<close> does,
  and for \<^verbatim>\<open>create\<close>, \<^verbatim>\<open>update\<close> and \<^verbatim>\<open>delete\<close> the answer of the call and the store
  it leaves are the same for every behaviour \<open>s\<close> of \<^verbatim>\<open>send\<close>, one that raises on
  every call included. (An exception is an \<^verbatim>\<open>Exception\<close>; the cancellation of the
  task is not modelled.)
\<close>

theorem notification_failure_is_swallowed:
  "fst (print_job_changed env j typ now w) = Inr ()
   \<and> fst (create (env\<lparr>send := s\<rparr>) spool_id_arg name_arg weight_used_arg started_at_arg
          completed_at_arg cost_arg revenue_arg notes_arg external_reference_arg now now' w)
       = fst (create env spool_id_arg name_arg weight_used_arg started_at_arg
          completed_at_arg cost_arg revenue_arg notes_arg external_reference_arg now now' w)
   \<and> db (snd (create (env\<lparr>send := s\<rparr>) spool_id_arg name_arg weight_used_arg started_at_arg
          completed_at_arg cost_arg revenue_arg notes_arg external_reference_arg now now' w))
       = db (snd (create env spool_id_arg name_arg weight_used_arg started_at_arg
          completed_at_arg cost_arg revenue_arg notes_arg external_reference_arg now now' w))
   \<and> fst (update (env\<lparr>send := s\<rparr>) print_job_id data now w)
       = fst (update env print_job_id data now w)
   \<and> db (snd (update (env\<lparr>send := s\<rparr>) print_job_id data now w))
       = db (snd (update env print_job_id data now w))
   \<and> fst (delete (env\<lparr>send := s\<rparr>) print_job_id now w) = fst (delete env print_job_id now w)
   \<and> db (snd (delete (env\<lparr>send := s\<rparr>) print_job_id now w))
       = db (snd (delete env print_job_id now w))"
  using create_send [where env = env and s = s and sid = spool_id_arg and nm = name_arg
      and wt = weight_used_arg and st = started_at_arg and ct = completed_at_arg
      and c = cost_arg and rv = revenue_arg and nt = notes_arg and xr = external_reference_arg
      and now = now and now' = now' and w = w]
    update_send [where env = env and s = s and i = print_job_id and data = data and now = now
      and w = w]
    delete_send [where env = env and s = s and i = print_job_id and now = now and w = w]
  by simp

theorem notification_failure_is_swallowed_witness:
  "fst (send (example_env\<lparr>send := failing_send\<rparr>) [''print_job'', ''5'']
        \<lparr>type' = UPDATED, resource = ''print_job'', date = utcnow 0, payload = example_updated\<rparr>
        (ws example_world))
     = Some (Exception ''connection closed'')
   \<and> fst (send example_env [''print_job'', ''5'']
        \<lparr>type' = UPDATED, resource = ''print_job'', date = utcnow 0, payload = example_updated\<rparr>
        (ws example_world)) = None
   \<and> fst (update (example_env\<lparr>send := failing_send\<rparr>) 5
          (model_dump_exclude_unset example_body) 0 example_world) = Inr example_updated
   \<and> fst (update example_env 5 (model_dump_exclude_unset example_body) 0 example_world)
       = Inr example_updated
   \<and> get_by_id (db (snd (update (example_env\<lparr>send := failing_send\<rparr>) 5
          (model_dump_exclude_unset example_body) 0 example_world))) 5 = Inr example_updated
   \<and> logged (snd (update (example_env\<lparr>send := failing_send\<rparr>) 5
          (model_dump_exclude_unset example_body) 0 example_world))
       = [''Failed to send websocket message'']
   \<and> logged (snd (update example_env 5 (model_dump_exclude_unset example_body) 0
          example_world)) = []"
proof -
  note t = notification_failure_is_swallowed [where env = example_env and s = failing_send
      and print_job_id = 5 and data = "model_dump_exclude_unset example_body" and now = 0
      and w = example_world]
  have u: "fst (update example_env 5 (model_dump_exclude_unset example_body) 0 example_world)
       = Inr example_updated"
    using example_update by (metis fst_conv)
  from t u have f: "fst (update (example_env\<lparr>send := failing_send\<rparr>) 5
          (model_dump_exclude_unset example_body) 0 example_world) = Inr example_updated"
    by simp
  from t update_stored [of example_env 5 "model_dump_exclude_unset example_body" 0 example_world
      example_updated, OF example_update]
  have g: "get_by_id (db (snd (update (example_env\<lparr>send := failing_send\<rparr>) 5
          (model_dump_exclude_unset example_body) 0 example_world))) 5 = Inr example_updated"
    by simp
  have l1: "logged (snd (update (example_env\<lparr>send := failing_send\<rparr>) 5
          (model_dump_exclude_unset example_body) 0 example_world))
       = [''Failed to send websocket message'']"
    by code_simp
  have l2: "logged (snd (update example_env 5 (model_dump_exclude_unset example_body) 0
          example_world)) = []"
    by code_simp
  have s1: "fst (send (example_env\<lparr>send := failing_send\<rparr>) [''print_job'', ''5'']
        \<lparr>type' = UPDATED, resource = ''print_job'', date = utcnow 0, payload = example_updated\<rparr>
        (ws example_world)) = Some (Exception ''connection closed'')"
    by (simp add: failing_send_def)
  have s2: "fst (send example_env [''print_job'', ''5'']
        \<lparr>type' = UPDATED, resource = ''print_job'', date = utcnow 0, payload = example_updated\<rparr>
        (ws example_world)) = None"
    by (simp add: example_env_def notifier_send_def)
  show ?thesis by (intro conjI s1 s2 f u g l1 l2)
qed

subsection \<open>C8: the order of commit and notification\<close>

text \<open>
  C8. A mutation is to be committed before its event is sent. \<^verbatim>\<open>create\<close> and
  \<^verbatim>\<open>update\<close> commit and then call \<^verbatim>\<open>print_job_changed\<close> (\<open>create_effects\<close>,
  \<open>update_effects\<close>); \<^verbatim>\<open>delete\<close> calls \<^verbatim>\<open>print_job_changed\<close> first and deletes and
  commits afterwards (\<open>delete_found\<close>). On the example store, the deletion of job 5
  sends the \<^verbatim>\<open>DELETED\<close> event while the row is still stored and then commits; the
  update of the same job commits and then sends.
\<close>

theorem delete_sends_before_commit:
  "effects (snd (delete example_env 5 0 example_world)) =
     [Sent [''print_job'', str 5]
        \<lparr>type' = DELETED, resource = ''print_job'', date = utcnow 0,
         payload = example_job 5 1000000\<rparr>,
      Committed (db_delete (example_job 5 1000000) (db example_world))]
   \<and> effects (snd (update example_env 5 (model_dump_exclude_unset example_body) 0 example_world)) =
     [Committed (db_merge example_updated (db example_world)),
      Sent [''print_job'', str 5]
        \<lparr>type' = UPDATED, resource = ''print_job'', date = utcnow 0, payload = example_updated\<rparr>]"
  using delete_found [OF example_get_5, of example_env 0] update_effects [OF example_update]
  by (simp add: example_world_def)

subsection \<open>C9: timestamps are stored in UTC\<close>

text \<open>
  C9. When \<^verbatim>\<open>create\<close> succeeds with a time-zone-aware \<^verbatim>\<open>started_at\<close> or
  \<^verbatim>\<open>completed_at\<close>, and when \<^verbatim>\<open>update\<close> succeeds on a \<^verbatim>\<open>dict\<close> that holds one, the
  value of the row is the same instant on the UTC clock (the wall-clock reading minus
  the offset) without a time zone, and the row is the one that the store holds.
\<close>

theorem timestamps_stored_in_utc:
  "(create env spool_id_arg name_arg weight_used_arg started_at_arg completed_at_arg cost_arg
      revenue_arg notes_arg external_reference_arg now now' w = (Inr j, w') \<longrightarrow>
      (\<forall>dt k. started_at_arg = Some dt \<and> tzinfo dt = Some k \<longrightarrow>
         started_at j = Some \<lparr>wall = wall dt - k, tzinfo = None\<rparr>) \<and>
      (\<forall>dt k. completed_at_arg = Some dt \<and> tzinfo dt = Some k \<longrightarrow>
         completed_at j = Some \<lparr>wall = wall dt - k, tzinfo = None\<rparr>) \<and>
      get_by_id (db w') (id' j) = Inr j)
   \<and> (update env print_job_id data now w = (Inr j1, w1) \<and> distinct (map key data) \<longrightarrow>
      (\<forall>dt k. Started_at (Some dt) \<in> set data \<and> tzinfo dt = Some k \<longrightarrow>
         started_at j1 = Some \<lparr>wall = wall dt - k, tzinfo = None\<rparr>) \<and>
      (\<forall>dt k. Completed_at (Some dt) \<in> set data \<and> tzinfo dt = Some k \<longrightarrow>
         completed_at j1 = Some \<lparr>wall = wall dt - k, tzinfo = None\<rparr>) \<and>
      get_by_id (db w1) print_job_id = Inr j1)"
proof (intro conjI impI)
  assume c: "create env spool_id_arg name_arg weight_used_arg started_at_arg completed_at_arg
      cost_arg revenue_arg notes_arg external_reference_arg now now' w = (Inr j, w')"
  from create_Inr [OF c]
  have st: "map_option (utc_timezone_naive (local_utcoffset env)) started_at_arg
        = map_option Inr (started_at j)"
    and ct: "map_option (utc_timezone_naive (local_utcoffset env)) completed_at_arg
        = map_option Inr (completed_at j)"
    and i: "id' j = new_id (db w)"
    and w': "w' = snd (print_job_changed env j ADDED now'
            (w\<lparr>db := db_add j (db w), effects := effects w @ [Committed (db_add j (db w))]\<rparr>))"
    by auto
  from st show "\<forall>dt k. started_at_arg = Some dt \<and> tzinfo dt = Some k \<longrightarrow>
         started_at j = Some \<lparr>wall = wall dt - k, tzinfo = None\<rparr>"
    by (cases "started_at j") (auto dest: utc_timezone_naive_aware)
  from ct show "\<forall>dt k. completed_at_arg = Some dt \<and> tzinfo dt = Some k \<longrightarrow>
         completed_at j = Some \<lparr>wall = wall dt - k, tzinfo = None\<rparr>"
    by (cases "completed_at j") (auto dest: utc_timezone_naive_aware)
  from w' have "db w' = db_add j (db w)" by (simp add: print_job_changed_eq)
  with get_by_id_db_add [OF i] show "get_by_id (db w') (id' j) = Inr j" by simp
next
  assume "update env print_job_id data now w = (Inr j1, w1) \<and> distinct (map key data)"
  then have u: "update env print_job_id data now w = (Inr j1, w1)"
    and d: "distinct (map key data)" by simp_all
  from update_Inr [OF u] obtain j0
    where a: "assign_all (local_utcoffset env) j0 data = Inr j1" by blast
  note hold = assign_all_holds [OF a d]
  show "\<forall>dt k. Started_at (Some dt) \<in> set data \<and> tzinfo dt = Some k \<longrightarrow>
         started_at j1 = Some \<lparr>wall = wall dt - k, tzinfo = None\<rparr>"
  proof (intro allI impI)
    fix dt k
    assume h: "Started_at (Some dt) \<in> set data \<and> tzinfo dt = Some k"
    with hold [of "Started_at (Some dt)"] obtain b
      where "convert (local_utcoffset env) (Started_at (Some dt)) = Inr b"
        and "getattr j1 ''started_at'' = Some b" by auto
    with h show "started_at j1 = Some \<lparr>wall = wall dt - k, tzinfo = None\<rparr>"
      by (auto simp: getattr_keys split: sum.splits dest: utc_timezone_naive_aware)
  qed
  show "\<forall>dt k. Completed_at (Some dt) \<in> set data \<and> tzinfo dt = Some k \<longrightarrow>
         completed_at j1 = Some \<lparr>wall = wall dt - k, tzinfo = None\<rparr>"
  proof (intro allI impI)
    fix dt k
    assume h: "Completed_at (Some dt) \<in> set data \<and> tzinfo dt = Some k"
    with hold [of "Completed_at (Some dt)"] obtain b
      where "convert (local_utcoffset env) (Completed_at (Some dt)) = Inr b"
        and "getattr j1 ''completed_at'' = Some b" by auto
    with h show "completed_at j1 = Some \<lparr>wall = wall dt - k, tzinfo = None\<rparr>"
      by (auto simp: getattr_keys split: sum.splits dest: utc_timezone_naive_aware)
  qed
  from update_stored [OF u] show "get_by_id (db w1) print_job_id = Inr j1" by simp
qed

theorem timestamps_stored_in_utc_witness:
  "create example_env 1 ''Benchy'' (float_literal 15.5) (Some \<lparr>wall = 7200000000, tzinfo = Some 3600000000\<rparr>)
     None None None None None 0 0 example_world =
   (Inr ((example_job 8 0)\<lparr>started_at := Some \<lparr>wall = 3600000000, tzinfo = None\<rparr>\<rparr>),
    snd (create example_env 1 ''Benchy'' (float_literal 15.5)
      (Some \<lparr>wall = 7200000000, tzinfo = Some 3600000000\<rparr>)
      None None None None None 0 0 example_world))
   \<and> update example_env 5 (model_dump_exclude_unset example_body) 0 example_world =
     (Inr example_updated,
      snd (update example_env 5 (model_dump_exclude_unset example_body) 0 example_world))
   \<and> distinct (map key (model_dump_exclude_unset example_body))
   \<and> Started_at (Some \<lparr>wall = 7200000000, tzinfo = Some 3600000000\<rparr>)
       \<in> set (model_dump_exclude_unset example_body)
   \<and> started_at example_updated = Some \<lparr>wall = 7200000000 - 3600000000, tzinfo = None\<rparr>
   \<and> get_by_id (db (snd (update example_env 5 (model_dump_exclude_unset example_body) 0
        example_world))) 5 = Inr example_updated"
proof -
  have m: "Started_at (Some \<lparr>wall = 7200000000, tzinfo = Some 3600000000\<rparr>)
       \<in> set (model_dump_exclude_unset example_body)"
    by (simp add: mem_model_dump example_body_def)
  note t = timestamps_stored_in_utc [THEN conjunct2, THEN mp,
      OF conjI [OF example_update distinct_model_dump]]
  from t [THEN conjunct1, rule_format,
      of "\<lparr>wall = 7200000000, tzinfo = Some 3600000000\<rparr>" 3600000000] m
  have "started_at example_updated = Some \<lparr>wall = 7200000000 - 3600000000, tzinfo = None\<rparr>"
    by simp
  moreover from t
  have "get_by_id (db (snd (update example_env 5 (model_dump_exclude_unset example_body) 0
        example_world))) 5 = Inr example_updated"
    by simp
  ultimately have "started_at example_updated
      = Some \<lparr>wall = 7200000000 - 3600000000, tzinfo = None\<rparr>"
    and "get_by_id (db (snd (update example_env 5 (model_dump_exclude_unset example_body) 0
        example_world))) 5 = Inr example_updated"
    by simp_all
  with example_create_aware example_update distinct_model_dump m show ?thesis by blast
qed

subsection \<open>C10: \<^verbatim>\<open>update\<close> derives no cost and checks no spool\<close>

text \<open>
  C10. When \<^verbatim>\<open>update\<close> succeeds on a \<^verbatim>\<open>dict\<close> without the key \<^verbatim>\<open>cost\<close>, the cost of
  the returned and stored row is the cost the job had, whatever the \<^verbatim>\<open>dict\<close> does to
  \<^verbatim>\<open>weight_used\<close> or \<^verbatim>\<open>spool_id\<close>. \<^verbatim>\<open>update\<close> never looks a spool up: where the engine
  does not enforce the foreign key, its answer is the same for every table of spools
  \<open>S\<close>, the empty one included; and in every configuration an
  \<^verbatim>\<open>ItemNotFoundError\<close> from \<^verbatim>\<open>update\<close> is the one of the missing print job.
\<close>

theorem update_keeps_cost:
  "(update env print_job_id data now w = (Inr j1, w') \<and> get_by_id (db w) print_job_id = Inr j
      \<and> ''cost'' \<notin> key ` set data \<longrightarrow>
      cost j1 = cost j \<and> get_by_id (db w') print_job_id = Inr j1)
   \<and> (\<not> foreign_keys env \<longrightarrow>
        fst (update env print_job_id data now (w\<lparr>db := (db w)\<lparr>spools := S\<rparr>\<rparr>))
        = fst (update env print_job_id data now w))
   \<and> (\<forall>m. fst (update env print_job_id data now w) = Inl (ItemNotFoundError m) \<longrightarrow>
        get_by_id (db w) print_job_id = Inl (ItemNotFoundError m))"
proof (intro conjI impI allI)
  assume h: "update env print_job_id data now w = (Inr j1, w') \<and>
      get_by_id (db w) print_job_id = Inr j \<and> ''cost'' \<notin> key ` set data"
  then have u: "update env print_job_id data now w = (Inr j1, w')" by simp
  from update_Inr [OF u] h have a: "assign_all (local_utcoffset env) j data = Inr j1" by auto
  from assign_all_frame [OF a] h have "getattr j1 ''cost'' = getattr j ''cost''" by blast
  then show "cost j1 = cost j" by (simp add: getattr_keys)
  from update_stored [OF u] show "get_by_id (db w') print_job_id = Inr j1" by simp
next
  assume "\<not> foreign_keys env"
  then have c: "constraints_ok (foreign_keys env) (db_merge x ((db w)\<lparr>spools := S\<rparr>)) x
      = constraints_ok (foreign_keys env) (db_merge x (db w)) x" for x
    by (simp add: constraints_ok_def split: option.splits)
  show "fst (update env print_job_id data now (w\<lparr>db := (db w)\<lparr>spools := S\<rparr>\<rparr>))
        = fst (update env print_job_id data now w)"
    by (simp add: update_def commit_def c after_print_job_changed split: sum.splits)
next
  fix m
  assume "fst (update env print_job_id data now w) = Inl (ItemNotFoundError m)"
  then show "get_by_id (db w) print_job_id = Inl (ItemNotFoundError m)"
    by (auto simp: update_def commit_def after_print_job_changed
        split: sum.splits if_splits dest: assign_all_error)
qed

theorem update_keeps_cost_witness:
  "update example_env 5 [Spool_id (Some 99), Weight_used (Some (float_literal 50))] 0 example_world =
     (Inr ((example_job 5 1000000)\<lparr>spool_id := Some 99, weight_used := Some (float_literal 50)\<rparr>),
      snd (update example_env 5 [Spool_id (Some 99), Weight_used (Some (float_literal 50))] 0 example_world))
   \<and> get_by_id (db example_world) 5 = Inr (example_job 5 1000000)
   \<and> ''cost'' \<notin> key ` set [Spool_id (Some 99), Weight_used (Some (float_literal 50))]
   \<and> spools (db example_world) 99 = None
   \<and> cost ((example_job 5 1000000)\<lparr>spool_id := Some 99, weight_used := Some (float_literal 50)\<rparr>) = Some (float_literal 3.1)
   \<and> get_by_id (db (snd (update example_env 5 [Spool_id (Some 99), Weight_used (Some (float_literal 50))] 0
        example_world))) 5
       = Inr ((example_job 5 1000000)\<lparr>spool_id := Some 99, weight_used := Some (float_literal 50)\<rparr>)
   \<and> \<not> foreign_keys example_env
   \<and> fst (update example_env 5 [Spool_id (Some 99), Weight_used (Some (float_literal 50))] 0
        (example_world\<lparr>db := (db example_world)\<lparr>spools := (\<lambda>i. None)\<rparr>\<rparr>))
       = Inr ((example_job 5 1000000)\<lparr>spool_id := Some 99, weight_used := Some (float_literal 50)\<rparr>)"
proof -
  let ?data = "[Spool_id (Some 99), Weight_used (Some (float_literal 50))]"
  let ?j = "(example_job 5 1000000)\<lparr>spool_id := Some 99, weight_used := Some (float_literal 50)\<rparr>"
  have f: "fst (update example_env 5 ?data 0 example_world) = Inr ?j"
    by code_simp
  then have u: "update example_env 5 ?data 0 example_world =
      (Inr ?j, snd (update example_env 5 ?data 0 example_world))"
    by (simp add: prod_eq_iff)
  have k: "''cost'' \<notin> key ` set ?data" by simp
  have n: "\<not> foreign_keys example_env" by (simp add: example_env_def)
  have s: "spools (db example_world) 99 = None"
    by (simp add: example_world_def example_db_def)
  note t = update_keeps_cost [where env = example_env and print_job_id = 5 and data = ?data
      and now = 0 and w = example_world and S = "\<lambda>i. None"]
  from t [THEN conjunct1, THEN mp, OF conjI [OF u conjI [OF example_get_5 k]]]
  have c1: "cost ?j = Some (float_literal 3.1)"
    and c2: "get_by_id (db (snd (update example_env 5 ?data 0 example_world))) 5 = Inr ?j"
    by (simp_all add: example_job_def)
  from t [THEN conjunct2, THEN conjunct1, THEN mp, OF n]
  have c3: "fst (update example_env 5 ?data 0
        (example_world\<lparr>db := (db example_world)\<lparr>spools := (\<lambda>i. None)\<rparr>\<rparr>)) = Inr ?j"
    by (simp add: f)
  show ?thesis
    by (intro conjI u example_get_5 k s c1 c2 n c3)
qed

end
